theory Spec2Isabelle
  imports Main
begin

section \<open>Values and errors of the Python program\<close>

text \<open>
  The checkers work on parsed JSON: \<^verbatim>\<open>JSON = Dict[str, Any]\<close>. A dictionary is an
  association list read with \<open>map_of\<close>; its keys are strings, as JSON object keys are.
  JSON numbers are integers here (fractional numbers are not modelled).
\<close>

datatype json =
    JNull
  | JBool bool
  | JInt int
  | JStr string
  | JList "json list"
  | JObj "(string \<times> json) list"

text \<open>
  The exceptions the modelled code can raise. \<open>KeyError\<close> carries its argument (the
  missing key, or the message of an explicit \<^verbatim>\<open>raise KeyError(...)\<close>), \<open>RequestError\<close>
  its message. \<open>Inl e\<close> is "raised e", \<open>Inr v\<close> is "returned v".
\<close>

datatype py_error =
    KeyError json
  | IndexError
  | TypeError
  | AttributeError
  | UnboundLocalError
  | RequestError string

type_synonym 'a result = "py_error + 'a"

text \<open>Python's \<^verbatim>\<open>==\<close> on parsed JSON (\<^verbatim>\<open>bool\<close> is a subclass of \<^verbatim>\<open>int\<close>).\<close>

fun py_eq :: "json \<Rightarrow> json \<Rightarrow> bool"
and py_eq_list :: "json list \<Rightarrow> json list \<Rightarrow> bool"
and py_eq_items :: "(string \<times> json) list \<Rightarrow> (string \<times> json) list \<Rightarrow> bool" where
  "py_eq JNull JNull = True"
| "py_eq (JBool a) (JBool b) = (a = b)"
| "py_eq (JBool a) (JInt n) = ((if a then 1 else 0) = n)"
| "py_eq (JInt n) (JBool a) = (n = (if a then 1 else 0))"
| "py_eq (JInt m) (JInt n) = (m = n)"
| "py_eq (JStr s) (JStr t) = (s = t)"
| "py_eq (JList xs) (JList ys) = py_eq_list xs ys"
| "py_eq (JObj a) (JObj b) = (length a = length b \<and> py_eq_items a b)"
| "py_eq _ _ = False"
| "py_eq_list [] [] = True"
| "py_eq_list (x # xs) (y # ys) = (py_eq x y \<and> py_eq_list xs ys)"
| "py_eq_list _ _ = False"
| "py_eq_items [] b = True"
| "py_eq_items ((k, v) # a) b =
     (case map_of b k of None \<Rightarrow> False | Some w \<Rightarrow> py_eq v w \<and> py_eq_items a b)"

text \<open>Truth value of a JSON value in an \<^verbatim>\<open>if\<close> or a conditional expression.\<close>

fun py_truthy :: "json \<Rightarrow> bool" where
  "py_truthy JNull = False"
| "py_truthy (JBool b) = b"
| "py_truthy (JInt n) = (n \<noteq> 0)"
| "py_truthy (JStr s) = (s \<noteq> [])"
| "py_truthy (JList xs) = (xs \<noteq> [])"
| "py_truthy (JObj kvs) = (kvs \<noteq> [])"

text \<open>\<^verbatim>\<open>v[key]\<close> with a string key: only a dictionary has string subscripts.\<close>

fun subscript :: "json \<Rightarrow> string \<Rightarrow> json result" where
  "subscript (JObj kvs) k =
     (case map_of kvs k of None \<Rightarrow> Inl (KeyError (JStr k)) | Some v \<Rightarrow> Inr v)"
| "subscript _ k = Inl TypeError"

text \<open>
  \<^verbatim>\<open>v[i]\<close> with a non-negative integer: a list or a string is indexed (out of range
  raises), a dictionary has no integer key, anything else is not subscriptable.
\<close>

fun subscript_idx :: "json \<Rightarrow> nat \<Rightarrow> json result" where
  "subscript_idx (JList xs) i = (if i < length xs then Inr (xs ! i) else Inl IndexError)"
| "subscript_idx (JStr s) i = (if i < length s then Inr (JStr [s ! i]) else Inl IndexError)"
| "subscript_idx (JObj kvs) i = Inl (KeyError (JInt (int i)))"
| "subscript_idx _ i = Inl TypeError"

text \<open>
  \<^verbatim>\<open>for x in v\<close>: the items of a list, the keys of a dictionary, the characters of a
  string; the other values are not iterable.
\<close>

fun py_iter :: "json \<Rightarrow> json list result" where
  "py_iter (JList xs) = Inr xs"
| "py_iter (JObj kvs) = Inr (map (\<lambda>kv. JStr (fst kv)) kvs)"
| "py_iter (JStr s) = Inr (map (\<lambda>c. JStr [c]) s)"
| "py_iter _ = Inl TypeError"

text \<open>\<^verbatim>\<open>v.get(key, default)\<close>: a method of dictionaries only.\<close>

fun py_get :: "json \<Rightarrow> string \<Rightarrow> json \<Rightarrow> json result" where
  "py_get (JObj kvs) k d = Inr (case map_of kvs k of None \<Rightarrow> d | Some v \<Rightarrow> v)"
| "py_get _ k d = Inl AttributeError"

text \<open>\<^verbatim>\<open>str(n)\<close> of an integer, in decimal.\<close>

fun str_nat :: "nat \<Rightarrow> string" where
  "str_nat n =
     (if n < 10 then [''0123456789'' ! n]
      else str_nat (n div 10) @ [''0123456789'' ! (n mod 10)])"

declare str_nat.simps [simp del]

definition str_int :: "int \<Rightarrow> string" where
  "str_int i = (if i < 0 then CHR ''-'' # str_nat (nat (- i)) else str_nat (nat i))"

text \<open>
  \<^verbatim>\<open>str(v)\<close>, as an f-string applies it. The text of a list or of a dictionary is
  Python's \<^verbatim>\<open>repr\<close>, which is not modelled: it is the parameter \<open>rp\<close>.
\<close>

fun py_str :: "(json \<Rightarrow> string) \<Rightarrow> json \<Rightarrow> string" where
  "py_str rp (JStr s) = s"
| "py_str rp JNull = ''None''"
| "py_str rp (JBool b) = (if b then ''True'' else ''False'')"
| "py_str rp (JInt i) = str_int i"
| "py_str rp v = rp v"

text \<open>\<^verbatim>\<open>s in t\<close> for two strings: \<open>s\<close> occurs in \<open>t\<close> as a contiguous substring.\<close>

fun str_starts :: "string \<Rightarrow> string \<Rightarrow> bool" where
  "str_starts [] t = True"
| "str_starts (c # s) [] = False"
| "str_starts (c # s) (d # t) = (c = d \<and> str_starts s t)"

fun str_contains :: "string \<Rightarrow> string \<Rightarrow> bool" where
  "str_contains s [] = (s = [])"
| "str_contains s (d # t) = (str_starts s (d # t) \<or> str_contains s t)"

section \<open>The transport: \<^verbatim>\<open>utils.make_request\<close>\<close>

text \<open>
  One call of \<^verbatim>\<open>requests.post(url, headers=headers, json=info)\<close> or
  \<^verbatim>\<open>requests.get(url, headers=headers, params=info)\<close>, and what the program reads of
  its response: \<^verbatim>\<open>status_code\<close>, \<^verbatim>\<open>reason\<close> and the result of \<^verbatim>\<open>json()\<close>.
\<close>

datatype http_call =
    HttpPost string json json
  | HttpGet string json json

record http_response =
  status_code :: int
  reason :: string
  json_body :: "json result"

text \<open>
  The remote server answers a call knowing every call made before it, so a server may
  answer the same call differently on each attempt.
\<close>

type_synonym server = "http_call list \<Rightarrow> http_call \<Rightarrow> http_response"

record flight =
  confirmation_number :: string
  local_departure_time :: string
  departure_airport :: string
  destination_airport :: string
  departure_time :: string

datatype notification =
    LowerFare flight string
  | FlightUnavailable flight

text \<open>
  The effects of the program: the HTTP calls made so far (oldest first), the time spent in
  \<^verbatim>\<open>time.sleep\<close> in milliseconds, and the calls of the notification handler.
\<close>

record world =
  calls :: "http_call list"
  slept_ms :: nat
  sent :: "notification list"

definition BASE_URL :: string where
  "BASE_URL = ''https://mobile.southwest.com/api/''"

text \<open>
  The \<^verbatim>\<open>while attempts <= max_attempts\<close> loop. \<open>response\<close> is the local variable of
  that name: unbound (\<open>None\<close>) until the first call has returned.
\<close>

function make_request_loop ::
  "server \<Rightarrow> string \<Rightarrow> string \<Rightarrow> json \<Rightarrow> json \<Rightarrow> int \<Rightarrow> int \<Rightarrow> http_response option \<Rightarrow> world
     \<Rightarrow> json result \<times> world" where
  "make_request_loop srv method url headers info attempts max_attempts response w =
     (if attempts \<le> max_attempts then
        (let call = (if method = ''POST'' then HttpPost url headers info
                     else HttpGet url headers info);
             response' = srv (calls w) call;
             w' = w\<lparr>calls := calls w @ [call]\<rparr>
         in if status_code response' = 200 then (json_body response', w')
            else make_request_loop srv method url headers info (attempts + 1) max_attempts
                   (Some response') (w'\<lparr>slept_ms := slept_ms w' + 500\<rparr>))
      else
        (case response of
           None \<Rightarrow> (Inl UnboundLocalError, w)
         | Some r \<Rightarrow> (Inl (RequestError (reason r @ '' '' @ str_int (status_code r))), w)))"
  by pat_completeness auto
termination
  by (relation "measure (\<lambda>(srv, method, url, headers, info, attempts, max_attempts, response, w).
        nat (max_attempts + 1 - attempts))") auto

declare make_request_loop.simps [simp del]

definition make_request ::
  "server \<Rightarrow> string \<Rightarrow> string \<Rightarrow> json \<Rightarrow> json \<Rightarrow> int \<Rightarrow> world \<Rightarrow> json result \<times> world" where
  "make_request srv method site headers info max_attempts w =
     make_request_loop srv method (BASE_URL @ site) headers info 1 max_attempts None w"

text \<open>The call that \<^verbatim>\<open>make_request\<close> repeats, and the server's answer to its attempt \<open>k\<close>
  (counted from 0) when the calls \<open>cs\<close> came before the first attempt.\<close>

definition request_call :: "string \<Rightarrow> string \<Rightarrow> json \<Rightarrow> json \<Rightarrow> http_call" where
  "request_call method site headers info =
     (if method = ''POST'' then HttpPost (BASE_URL @ site) headers info
      else HttpGet (BASE_URL @ site) headers info)"

definition attempt_response :: "server \<Rightarrow> http_call list \<Rightarrow> http_call \<Rightarrow> nat \<Rightarrow> http_response" where
  "attempt_response srv cs c k = srv (cs @ replicate k c) c"

section \<open>Sequencing computations that may raise\<close>

definition and_then :: "'a result \<Rightarrow> ('a \<Rightarrow> 'b result) \<Rightarrow> 'b result" where
  "and_then r f = (case r of Inl e \<Rightarrow> Inl e | Inr v \<Rightarrow> f v)"

text \<open>\<^verbatim>\<open>v[k1][k2]...\<close>, read from left to right.\<close>

fun subscripts :: "json \<Rightarrow> string list \<Rightarrow> json result" where
  "subscripts v [] = Inr v"
| "subscripts v (k # ks) = and_then (subscript v k) (\<lambda>u. subscripts u ks)"

text \<open>\<^verbatim>\<open>"..." in v\<close> with a string on the left.\<close>

fun py_in :: "string \<Rightarrow> json \<Rightarrow> bool result" where
  "py_in s (JStr t) = Inr (str_contains s t)"
| "py_in s (JList xs) = Inr (list_ex (\<lambda>x. py_eq x (JStr s)) xs)"
| "py_in s (JObj kvs) = Inr (map_of kvs s \<noteq> None)"
| "py_in s _ = Inl TypeError"

text \<open>
  \<^verbatim>\<open>v[1:]\<close>. A dictionary rejects a slice as a key (a \<^verbatim>\<open>TypeError\<close>, the slice being
  unhashable before Python 3.12).
\<close>

fun py_slice_from_1 :: "json \<Rightarrow> json result" where
  "py_slice_from_1 (JStr s) = Inr (JStr (drop 1 s))"
| "py_slice_from_1 (JList xs) = Inr (JList (drop 1 xs))"
| "py_slice_from_1 _ = Inl TypeError"

text \<open>\<^verbatim>\<open>s + v\<close> with a string on the left: only a string can be appended.\<close>

fun str_add :: "string \<Rightarrow> json \<Rightarrow> string result" where
  "str_add s (JStr t) = Inr (s @ t)"
| "str_add s _ = Inl TypeError"

section \<open>The fare checker: \<^verbatim>\<open>lib/fare_checker.py\<close>\<close>

definition BOOKING_URL :: string where
  "BOOKING_URL = ''mobile-air-booking/''"

text \<open>
  What a checker reads of \<^verbatim>\<open>self\<close>: the traveller's names of its flight retriever and the
  request headers.
\<close>

record checker =
  first_name :: string
  last_name :: string
  headers :: json

text \<open>\<^verbatim>\<open>FareChecker._get_matching_fare\<close>: the \<^verbatim>\<open>for fare in fares\<close> loop, then the
  \<^verbatim>\<open>raise KeyError\<close> after it.\<close>

fun get_matching_fare_loop :: "(json \<Rightarrow> string) \<Rightarrow> json list \<Rightarrow> json \<Rightarrow> json result" where
  "get_matching_fare_loop rp [] fare_type =
     Inl (KeyError (JStr (''No fare type found matching '' @ py_str rp fare_type)))"
| "get_matching_fare_loop rp (fare # fares) fare_type =
     and_then (subscripts fare [''_meta'', ''fareProductId'']) (\<lambda>fare_product_id.
       if py_eq fare_product_id fare_type then subscript fare ''priceDifference''
       else get_matching_fare_loop rp fares fare_type)"

definition get_matching_fare :: "(json \<Rightarrow> string) \<Rightarrow> json \<Rightarrow> json \<Rightarrow> json result" where
  "get_matching_fare rp fares fare_type =
     and_then (py_iter fares) (\<lambda>fs. get_matching_fare_loop rp fs fare_type)"

text \<open>
  \<^verbatim>\<open>FareChecker._get_search_query\<close>. \<open>search_term\<close> is the dictionary appended for
  the bound at index \<open>idx\<close>, its values evaluated in the order they are written;
  \<open>search_terms_loop\<close> is the \<^verbatim>\<open>for idx, bound in enumerate(...)\<close> loop.
\<close>

definition search_term :: "json \<Rightarrow> nat \<Rightarrow> json \<Rightarrow> flight \<Rightarrow> json result" where
  "search_term bound_references idx bound flight =
     and_then (subscript_idx bound_references idx) (\<lambda>reference.
     and_then (subscript reference ''boundReference'') (\<lambda>bound_reference.
     and_then (subscript bound ''originalDate'') (\<lambda>original_date.
     and_then (subscript bound ''toAirportCode'') (\<lambda>to_airport_code.
     and_then (subscript bound ''fromAirportCode'') (\<lambda>from_airport_code.
     and_then (subscript bound ''timeDeparts'') (\<lambda>time_departs.
       Inr (JObj
         [(''boundReference'', bound_reference),
          (''date'', original_date),
          (''destination-airport'', to_airport_code),
          (''origin-airport'', from_airport_code),
          (''isChangeBound'',
             JBool (py_eq time_departs (JStr (local_departure_time flight))))])))))))"

fun search_terms_loop :: "json \<Rightarrow> nat \<Rightarrow> json list \<Rightarrow> flight \<Rightarrow> json list result" where
  "search_terms_loop bound_references idx [] flight = Inr []"
| "search_terms_loop bound_references idx (bound # bounds) flight =
     and_then (search_term bound_references idx bound flight) (\<lambda>term.
     and_then (search_terms_loop bound_references (Suc idx) bounds flight) (\<lambda>terms.
       Inr (term # terms)))"

definition get_search_query :: "json \<Rightarrow> flight \<Rightarrow> json result" where
  "get_search_query flight_page flight =
     and_then (subscripts flight_page [''_links'', ''changeShopping'', ''body'']) (\<lambda>bound_references.
     and_then (subscript flight_page ''boundSelections'') (\<lambda>bound_selections.
     and_then (py_iter bound_selections) (\<lambda>bounds.
     and_then (search_terms_loop bound_references 0 bounds flight) (\<lambda>search_terms.
       Inr (JObj (zip [''outbound'', ''inbound''] search_terms))))))"

text \<open>
  \<^verbatim>\<open>FareChecker._get_change_flight_page\<close>. \<open>VIEW_RESERVATION_URL\<close> is a constant of
  \<^verbatim>\<open>lib/checkin_scheduler.py\<close>, taken as a parameter. The function returns the pair of
  the change-flight page and the reservation's bounds.
\<close>

definition get_change_flight_page ::
  "server \<Rightarrow> string \<Rightarrow> checker \<Rightarrow> flight \<Rightarrow> world \<Rightarrow> (json \<times> json) result \<times> world" where
  "get_change_flight_page srv VIEW_RESERVATION_URL self flight w =
     (let info = JObj [(''first-name'', JStr (first_name self)),
                       (''last-name'', JStr (last_name self))];
          site = VIEW_RESERVATION_URL @ confirmation_number flight
      in case make_request srv ''GET'' site (headers self) info 7 w of
           (Inl e, w1) \<Rightarrow> (Inl e, w1)
         | (Inr response, w1) \<Rightarrow>
            (case
               and_then (subscripts response [''viewReservationViewPage'', ''bounds''])
                 (\<lambda>fare_type_bounds.
               and_then (subscripts response [''viewReservationViewPage'', ''_links'', ''change''])
                 (\<lambda>info.
               and_then (subscript info ''href'') (\<lambda>href.
               and_then (py_in ''/v1/'' href) (\<lambda>extra_slash.
               and_then (if extra_slash then py_slice_from_1 href else Inr href) (\<lambda>href'.
               and_then (str_add BOOKING_URL href') (\<lambda>site.
               and_then (subscript info ''query'') (\<lambda>query.
                 Inr (fare_type_bounds, site, query))))))))
             of
               Inl e \<Rightarrow> (Inl e, w1)
             | Inr (fare_type_bounds, site, query) \<Rightarrow>
                (case make_request srv ''GET'' site (headers self) query 7 w1 of
                   (Inl e, w2) \<Rightarrow> (Inl e, w2)
                 | (Inr response, w2) \<Rightarrow>
                    (and_then (subscript response ''changeFlightPage'') (\<lambda>page.
                       Inr (page, fare_type_bounds)), w2))))"

text \<open>\<^verbatim>\<open>FareChecker._get_matching_flights\<close>: returns the pair of the cards and the
  fare type.\<close>

definition get_matching_flights ::
  "server \<Rightarrow> string \<Rightarrow> checker \<Rightarrow> flight \<Rightarrow> world \<Rightarrow> (json \<times> json) result \<times> world" where
  "get_matching_flights srv VIEW_RESERVATION_URL self flight w =
     (case get_change_flight_page srv VIEW_RESERVATION_URL self flight w of
        (Inl e, w1) \<Rightarrow> (Inl e, w1)
      | (Inr (change_flight_page, fare_type_bounds), w1) \<Rightarrow>
         (case
            and_then (get_search_query change_flight_page flight) (\<lambda>query.
            and_then (subscripts change_flight_page [''_links'', ''changeShopping'']) (\<lambda>info.
            and_then (subscript info ''href'') (\<lambda>href.
            and_then (str_add BOOKING_URL href) (\<lambda>site.
            and_then (subscripts query [''outbound'', ''isChangeBound'']) (\<lambda>is_change_bound.
              let bound_page = (if py_truthy is_change_bound then ''outboundPage''
                                else ''inboundPage'');
                  bound = (if bound_page = ''outboundPage'' then 0 else 1)
              in
            and_then (subscript_idx fare_type_bounds bound) (\<lambda>fare_type_bound.
            and_then (subscripts fare_type_bound [''fareProductDetails'', ''fareProductId''])
              (\<lambda>fare_type.
              Inr (query, site, bound_page, fare_type))))))))
          of
            Inl e \<Rightarrow> (Inl e, w1)
          | Inr (query, site, bound_page, fare_type) \<Rightarrow>
             (case make_request srv ''POST'' site (headers self) query 7 w1 of
                (Inl e, w2) \<Rightarrow> (Inl e, w2)
              | (Inr response, w2) \<Rightarrow>
                 (and_then
                    (subscripts response [''changeShoppingPage'', ''flights'', bound_page, ''cards''])
                    (\<lambda>cards. Inr (cards, fare_type)), w2))))"

text \<open>
  \<^verbatim>\<open>FareChecker._get_flight_price\<close>. A Python function that reaches its end returns
  \<^verbatim>\<open>None\<close>: the loop that finds no card returns \<open>JNull\<close>. (\<^verbatim>\<open>len(flights)\<close> in the
  logging call raises for the values that cannot be iterated, as the loop would.)
\<close>

fun get_flight_price_loop :: "(json \<Rightarrow> string) \<Rightarrow> json list \<Rightarrow> json \<Rightarrow> flight \<Rightarrow> json result" where
  "get_flight_price_loop rp [] fare_type flight = Inr JNull"
| "get_flight_price_loop rp (new_flight # flights) fare_type flight =
     and_then (subscript new_flight ''departureTime'') (\<lambda>departure.
       if py_eq departure (JStr (local_departure_time flight)) then
         and_then (subscript new_flight ''fares'') (\<lambda>fares. get_matching_fare rp fares fare_type)
       else get_flight_price_loop rp flights fare_type flight)"

definition get_flight_price ::
  "(json \<Rightarrow> string) \<Rightarrow> server \<Rightarrow> string \<Rightarrow> checker \<Rightarrow> flight \<Rightarrow> world \<Rightarrow> json result \<times> world" where
  "get_flight_price rp srv VIEW_RESERVATION_URL self flight w =
     (case get_matching_flights srv VIEW_RESERVATION_URL self flight w of
        (Inl e, w1) \<Rightarrow> (Inl e, w1)
      | (Inr (flights, fare_type), w1) \<Rightarrow>
         (and_then (py_iter flights) (\<lambda>fs. get_flight_price_loop rp fs fare_type flight), w1))"

text \<open>\<^verbatim>\<open>FareChecker.check_flight_price\<close>. The notification handler's
  \<^verbatim>\<open>lower_fare(flight, price_info)\<close> is recorded in \<open>sent\<close>.\<close>

definition check_flight_price ::
  "(json \<Rightarrow> string) \<Rightarrow> server \<Rightarrow> string \<Rightarrow> checker \<Rightarrow> flight \<Rightarrow> world \<Rightarrow> unit result \<times> world" where
  "check_flight_price rp srv VIEW_RESERVATION_URL self flight w =
     (case get_flight_price rp srv VIEW_RESERVATION_URL self flight w of
        (Inl e, w1) \<Rightarrow> (Inl e, w1)
      | (Inr flight_price, w1) \<Rightarrow>
         (case
            and_then (py_get flight_price ''sign'' (JStr [])) (\<lambda>sign.
            and_then (subscript flight_price ''amount'') (\<lambda>amount.
            and_then (subscript flight_price ''currencyCode'') (\<lambda>currency_code.
              Inr (sign, py_str rp sign @ py_str rp amount @ '' '' @ py_str rp currency_code))))
          of
            Inl e \<Rightarrow> (Inl e, w1)
          | Inr (sign, price_info) \<Rightarrow>
             if py_eq sign (JStr ''-'') then
               (Inr (), w1\<lparr>sent := sent w1 @ [LowerFare flight price_info]\<rparr>)
             else (Inr (), w1)))"

section \<open>The passenger checker: \<^verbatim>\<open>lib/passenger_checker.py\<close>\<close>

definition SHOPPING_URL :: string where
  "SHOPPING_URL = ''mobile-air-shopping/v1/mobile-air-shopping/page/flights/products''"

text \<open>
  \<^verbatim>\<open>utils.get_airport_code\<close> (its second definition, which replaces the first).
  \<open>airports\<close> is the parsed content of \<^verbatim>\<open>utils/airport_stations.json\<close>, a file that is
  not part of the sources: a parameter.
\<close>

fun get_airport_code_loop :: "json list \<Rightarrow> string \<Rightarrow> json result" where
  "get_airport_code_loop [] city = Inr JNull"
| "get_airport_code_loop (airport # airports) city =
     and_then (subscript airport ''stationName'') (\<lambda>station_name.
       if py_eq station_name (JStr city) then subscript airport ''id''
       else get_airport_code_loop airports city)"

definition get_airport_code :: "json \<Rightarrow> string \<Rightarrow> json result" where
  "get_airport_code airports city =
     and_then (subscript airports ''airStations'') (\<lambda>stations.
     and_then (py_iter stations) (\<lambda>xs. get_airport_code_loop xs city))"

text \<open>
  \<^verbatim>\<open>PassengerChecker._search_for_new_booking_on_same_flight\<close>. The field
  \<open>departure_time\<close> of a flight holds \<^verbatim>\<open>str(flight.departure_time)\<close>;
  \<^verbatim>\<open>split(" ")[0]\<close> is its part before the first space.
\<close>

definition search_for_new_booking_on_same_flight ::
  "server \<Rightarrow> json \<Rightarrow> checker \<Rightarrow> flight \<Rightarrow> world \<Rightarrow> json result \<times> world" where
  "search_for_new_booking_on_same_flight srv airports self flight w =
     (case
        and_then (get_airport_code airports (departure_airport flight)) (\<lambda>origination.
        and_then (get_airport_code airports (destination_airport flight)) (\<lambda>destination.
          Inr (JObj
            [(''origination-airport'', origination),
             (''destination-airport'', destination),
             (''departure-date'',
                JStr (takeWhile (\<lambda>c. c \<noteq> CHR '' '') (departure_time flight))),
             (''number-adult-passengers'', JStr ''8''),
             (''currency'', JStr ''USD'')])))
      of
        Inl e \<Rightarrow> (Inl e, w)
      | Inr info \<Rightarrow>
         (case make_request srv ''GET'' SHOPPING_URL (headers self) info 7 w of
            (Inl e, w1) \<Rightarrow> (Inl e, w1)
          | (Inr response, w1) \<Rightarrow>
             (subscripts response [''flightShoppingPage'', ''outboundPage'', ''cards''], w1)))"

text \<open>\<^verbatim>\<open>PassengerChecker._find_matching_flight\<close>: \<open>JNull\<close> when the loop finds no card.\<close>

fun find_matching_flight_loop :: "flight \<Rightarrow> json list \<Rightarrow> json result" where
  "find_matching_flight_loop flight [] = Inr JNull"
| "find_matching_flight_loop flight (available_flight # flights_available) =
     and_then (subscript available_flight ''departureTime'') (\<lambda>departure.
       if py_eq departure (JStr (local_departure_time flight)) then Inr available_flight
       else find_matching_flight_loop flight flights_available)"

definition find_matching_flight :: "flight \<Rightarrow> json \<Rightarrow> json result" where
  "find_matching_flight flight flights_available =
     and_then (py_iter flights_available) (\<lambda>xs. find_matching_flight_loop flight xs)"

text \<open>\<^verbatim>\<open>PassengerChecker.check_passenger_availability\<close>. The notification handler's
  \<^verbatim>\<open>flight_unavailable(flight)\<close> is recorded in \<open>sent\<close>.\<close>

definition check_passenger_availability ::
  "server \<Rightarrow> json \<Rightarrow> checker \<Rightarrow> flight \<Rightarrow> world \<Rightarrow> unit result \<times> world" where
  "check_passenger_availability srv airports self flight w =
     (case search_for_new_booking_on_same_flight srv airports self flight w of
        (Inl e, w1) \<Rightarrow> (Inl e, w1)
      | (Inr flights_available, w1) \<Rightarrow>
         (case
            and_then (find_matching_flight flight flights_available) (\<lambda>matching_flight.
              subscript matching_flight ''startingFromPrice'')
          of
            Inl e \<Rightarrow> (Inl e, w1)
          | Inr starting_from_price \<Rightarrow>
             if starting_from_price = JNull then
               (Inr (), w1\<lparr>sent := sent w1 @ [FlightUnavailable flight]\<rparr>)
             else (Inr (), w1)))"

section \<open>Predicates used to state the properties\<close>

text \<open>A fare entry matches a fare type when its \<^verbatim>\<open>_meta.fareProductId\<close> is present and
  equal to it.\<close>

definition fare_matches :: "json \<Rightarrow> json \<Rightarrow> bool" where
  "fare_matches fare_type fare =
     (case subscripts fare [''_meta'', ''fareProductId''] of
        Inl e \<Rightarrow> False
      | Inr fare_product_id \<Rightarrow> py_eq fare_product_id fare_type)"

section \<open>Concrete inputs\<close>

text \<open>The inputs at which the theorems below are instantiated and the code is run.\<close>

definition w0 :: world where
  "w0 = \<lparr>calls = [], slept_ms = 0, sent = []\<rparr>"

definition srv_busy :: server where
  "srv_busy cs c = \<lparr>status_code = 503, reason = ''Service Unavailable'', json_body = Inr JNull\<rparr>"

definition srv_second :: server where
  "srv_second cs c =
     (if length cs = 1 then \<lparr>status_code = 200, reason = ''OK'', json_body = Inr (JStr ''page'')\<rparr>
      else \<lparr>status_code = 503, reason = ''Service Unavailable'', json_body = Inr JNull\<rparr>)"

definition price_drop :: json where
  "price_drop = JObj [(''sign'', JStr ''-''), (''amount'', JStr ''10''), (''currencyCode'', JStr ''USD'')]"

definition demo_fares :: "json list" where
  "demo_fares =
     [JObj [(''_meta'', JObj [(''fareProductId'', JStr ''WGA'')]),
            (''priceDifference'', JObj [(''sign'', JStr ''+''), (''amount'', JStr ''25''), (''currencyCode'', JStr ''USD'')])],
      JObj [(''_meta'', JObj [(''fareProductId'', JStr ''ANY'')]),
            (''priceDifference'', price_drop)]]"

definition bound_one :: json where
  "bound_one = JObj [(''originalDate'', JStr ''1/1''), (''toAirportCode'', JStr ''LAX''),
                     (''fromAirportCode'', JStr ''MIA''), (''timeDeparts'', JStr ''12:00'')]"

definition bound_two :: json where
  "bound_two = JObj [(''originalDate'', JStr ''1/2''), (''toAirportCode'', JStr ''MIA''),
                     (''fromAirportCode'', JStr ''LAX''), (''timeDeparts'', JStr ''1:00'')]"

definition flight_page_of :: "json list \<Rightarrow> json" where
  "flight_page_of bounds =
     JObj [(''boundSelections'', JList bounds),
           (''_links'', JObj [(''changeShopping'',
              JObj [(''href'', JStr ''v1/mobile-air-booking/page/flights/change/shopping''),
                    (''body'', JList [JObj [(''boundReference'', JStr ''bound_1'')],
                                      JObj [(''boundReference'', JStr ''bound_2'')],
                                      JObj [(''boundReference'', JStr ''bound_3'')]])])])]"

definition demo_flight :: flight where
  "demo_flight = \<lparr>confirmation_number = ''ABC123'', local_departure_time = ''1:00'',
                   departure_airport = ''Los Angeles'', destination_airport = ''Miami'',
                   departure_time = ''2023-01-02 01:00:00''\<rparr>"

definition outbound_term :: json where
  "outbound_term = JObj [(''boundReference'', JStr ''bound_1''), (''date'', JStr ''1/1''),
      (''destination-airport'', JStr ''LAX''), (''origin-airport'', JStr ''MIA''),
      (''isChangeBound'', JBool False)]"

definition inbound_term :: json where
  "inbound_term = JObj [(''boundReference'', JStr ''bound_2''), (''date'', JStr ''1/2''),
      (''destination-airport'', JStr ''MIA''), (''origin-airport'', JStr ''LAX''),
      (''isChangeBound'', JBool True)]"

definition no_repr :: "json \<Rightarrow> string" where
  "no_repr v = []"

definition demo_self :: checker where
  "demo_self = \<lparr>first_name = ''Jane'', last_name = ''Doe'', headers = JObj []\<rparr>"

definition noon_flight :: flight where
  "noon_flight = demo_flight\<lparr>local_departure_time := ''12:00''\<rparr>"

definition two_flight :: flight where
  "two_flight = demo_flight\<lparr>local_departure_time := ''2:00''\<rparr>"

definition three_flight :: flight where
  "three_flight = demo_flight\<lparr>local_departure_time := ''3:00''\<rparr>"

definition ok :: "json \<Rightarrow> http_response" where
  "ok body = \<lparr>status_code = 200, reason = ''OK'', json_body = Inr body\<rparr>"

definition demo_bounds :: json where
  "demo_bounds =
     JList [JObj [(''fareProductDetails'', JObj [(''fareProductId'', JStr ''WGA'')])],
            JObj [(''fareProductDetails'', JObj [(''fareProductId'', JStr ''ANY'')])]]"

definition demo_query :: json where
  "demo_query = JObj [(''passenger-search-token'', JStr ''token'')]"

definition reservation_response :: "string \<Rightarrow> json" where
  "reservation_response href =
     JObj [(''viewReservationViewPage'',
        JObj [(''bounds'', demo_bounds),
              (''_links'', JObj [(''change'',
                 JObj [(''href'', JStr href), (''query'', demo_query)])])])]"

definition no_change :: json where
  "no_change = JObj [(''amount'', JStr ''0''), (''currencyCode'', JStr ''USD'')]"

definition price_rise :: json where
  "price_rise = JObj [(''sign'', JStr ''+''), (''amount'', JStr ''25''), (''currencyCode'', JStr ''USD'')]"

definition outbound_cards :: json where
  "outbound_cards = JList [JObj [(''departureTime'', JStr ''10:30'')],
                           JObj [(''departureTime'', JStr ''11:30'')]]"

definition inbound_cards :: json where
  "inbound_cards =
     JList [JObj [(''departureTime'', JStr ''1:00''), (''fares'', JList demo_fares)],
            JObj [(''departureTime'', JStr ''2:00''),
                  (''fares'', JList [JObj [(''_meta'', JObj [(''fareProductId'', JStr ''ANY'')]),
                                           (''priceDifference'', no_change)]])],
            JObj [(''departureTime'', JStr ''3:00''),
                  (''fares'', JList [JObj [(''_meta'', JObj [(''fareProductId'', JStr ''ANY'')]),
                                           (''priceDifference'', price_rise)]])]]"

definition shopping_response :: json where
  "shopping_response =
     JObj [(''changeShoppingPage'',
        JObj [(''flights'',
           JObj [(''outboundPage'', JObj [(''cards'', outbound_cards)]),
                 (''inboundPage'', JObj [(''cards'', inbound_cards)])])])]"

definition srv_fares :: "string \<Rightarrow> server" where
  "srv_fares href cs c =
     (if length cs = 0 then ok (reservation_response href)
      else if length cs = 1 then ok (JObj [(''changeFlightPage'', flight_page_of [bound_one, bound_two])])
      else ok shopping_response)"

definition slash_href :: string where
  "slash_href = ''/v1/mobile-air-booking/page/flights/change/current/ABC123''"

definition plain_href :: string where
  "plain_href = ''page/flights/change/current/ABC123''"

definition view_url :: string where
  "view_url = ''mobile-air-booking/v1/mobile-air-booking/page/view-reservation/''"

definition demo_airports :: json where
  "demo_airports =
     JObj [(''airStations'',
        JList [JObj [(''id'', JStr ''LAX''), (''stationName'', JStr ''Los Angeles'')],
               JObj [(''id'', JStr ''MIA''), (''stationName'', JStr ''Miami'')]])]"

definition morning_flight :: flight where
  "morning_flight = demo_flight\<lparr>local_departure_time := ''10:30''\<rparr>"

definition seat_cards :: "json list" where
  "seat_cards =
     [JObj [(''departureTime'', JStr ''10:30''),
            (''startingFromPrice'', JObj [(''amount'', JStr ''120''), (''currencyCode'', JStr ''USD'')])],
      JObj [(''departureTime'', JStr ''1:00''), (''startingFromPrice'', JNull)],
      JObj [(''departureTime'', JStr ''2:00'')]]"

definition srv_seats :: server where
  "srv_seats cs c =
     ok (JObj [(''flightShoppingPage'', JObj [(''outboundPage'', JObj [(''cards'', JList seat_cards)])])])"

definition srv_bare :: server where
  "srv_bare cs c =
     ok (JObj [(''flightShoppingPage'', JObj [(''outboundPage'', JObj [(''cards'', JList [JObj []])])])])"


section \<open>Basic facts\<close>

lemma and_then_simps [simp]:
  "and_then (Inl e) f = Inl e"
  "and_then (Inr v) f = f v"
  by (simp_all add: and_then_def)

lemma and_then_eq_Inr:
  "and_then r f = Inr y \<longleftrightarrow> (\<exists>v. r = Inr v \<and> f v = Inr y)"
  by (cases r) simp_all

lemma py_eq_JStr [simp]: "py_eq v (JStr t) = (v = JStr t)"
  by (cases v) auto
subsection \<open>What a request leaves behind\<close>

lemma make_request_loop_sent:
  "sent (snd (make_request_loop srv meth addr hdrs info attempts max_attempts response w)) = sent w"
proof (induction srv meth addr hdrs info attempts max_attempts response w
       rule: make_request_loop.induct)
  case (1 srv meth addr hdrs info attempts max_attempts response w)
  show ?case
  proof (cases "attempts \<le> max_attempts")
    case False
    then show ?thesis
      by (subst make_request_loop.simps) (simp split: option.splits)
  next
    case True
    let ?call = "if meth = ''POST'' then HttpPost addr hdrs info else HttpGet addr hdrs info"
    show ?thesis
    proof (cases "status_code (srv (calls w) ?call) = 200")
      case ok: True
      with True show ?thesis
        by (subst make_request_loop.simps) (simp add: Let_def)
    next
      case bad: False
      have "sent (snd (make_request_loop srv meth addr hdrs info (attempts + 1) max_attempts
                (Some (srv (calls w) ?call))
                (w\<lparr>calls := calls w @ [?call], slept_ms := slept_ms w + 500\<rparr>))) = sent w"
        using "1.IH" [OF True refl refl refl] bad by simp
      with True bad show ?thesis
        by (subst make_request_loop.simps) (simp add: Let_def)
    qed
  qed
qed

lemma make_request_sent:
  "make_request srv meth site hdrs info max_attempts w = (r, w') \<Longrightarrow> sent w' = sent w"
  using make_request_loop_sent [of srv meth "BASE_URL @ site" hdrs info 1 max_attempts None w]
  by (simp add: make_request_def)

lemma make_request_first_ok:
  "status_code (srv (calls w) (request_call meth site hdrs info)) = 200 \<Longrightarrow>
   1 \<le> max_attempts \<Longrightarrow>
   make_request srv meth site hdrs info max_attempts w =
     (json_body (srv (calls w) (request_call meth site hdrs info)),
      w\<lparr>calls := calls w @ [request_call meth site hdrs info]\<rparr>)"
  unfolding make_request_def
  by (subst make_request_loop.simps) (simp add: Let_def request_call_def)

lemma make_request_loop_calls:
  "\<exists>n. calls (snd (make_request_loop srv meth addr hdrs info attempts max_attempts response w)) =
         calls w @ replicate n (if meth = ''POST'' then HttpPost addr hdrs info
                                else HttpGet addr hdrs info) \<and>
       (attempts \<le> max_attempts \<longrightarrow> 1 \<le> n)"
proof (induction srv meth addr hdrs info attempts max_attempts response w
       rule: make_request_loop.induct)
  case (1 srv meth addr hdrs info attempts max_attempts response w)
  let ?call = "if meth = ''POST'' then HttpPost addr hdrs info else HttpGet addr hdrs info"
  show ?case
  proof (cases "attempts \<le> max_attempts")
    case False
    then have "calls (snd (make_request_loop srv meth addr hdrs info attempts max_attempts response w)) =
         calls w @ replicate 0 ?call"
      by (subst make_request_loop.simps) (simp split: option.splits)
    with False show ?thesis by blast
  next
    case True
    show ?thesis
    proof (cases "status_code (srv (calls w) ?call) = 200")
      case ok: True
      with True have "calls (snd (make_request_loop srv meth addr hdrs info attempts max_attempts response w)) =
         calls w @ replicate 1 ?call"
        by (subst make_request_loop.simps) (simp add: Let_def)
      then show ?thesis by (intro exI [of _ 1]) simp
    next
      case bad: False
      let ?w = "w\<lparr>calls := calls w @ [?call], slept_ms := slept_ms w + 500\<rparr>"
      from "1.IH" [OF True refl refl refl] bad obtain n where
        n: "calls (snd (make_request_loop srv meth addr hdrs info (attempts + 1) max_attempts
                (Some (srv (calls w) ?call)) ?w)) = calls ?w @ replicate n ?call"
        by auto
      have step: "make_request_loop srv meth addr hdrs info attempts max_attempts response w =
          make_request_loop srv meth addr hdrs info (attempts + 1) max_attempts
                (Some (srv (calls w) ?call)) ?w"
        using True bad by (subst make_request_loop.simps) (simp add: Let_def)
      have "calls (snd (make_request_loop srv meth addr hdrs info attempts max_attempts response w)) =
          calls w @ replicate (Suc n) ?call"
        unfolding step n by simp
      then show ?thesis by (intro exI [of _ "Suc n"]) simp
    qed
  qed
qed

lemma make_request_calls:
  "1 \<le> max_attempts \<Longrightarrow> make_request srv meth site hdrs info max_attempts w = (r, w') \<Longrightarrow>
   \<exists>n. 1 \<le> n \<and> calls w' = calls w @ replicate n (request_call meth site hdrs info)"
  using make_request_loop_calls [of srv meth "BASE_URL @ site" hdrs info 1 max_attempts None w]
  by (auto simp: make_request_def request_call_def)

lemma ok_simps [simp]:
  "status_code (ok body) = 200" "json_body (ok body) = Inr body"
  by (simp_all add: ok_def)

lemma ex_change_page:
  "confirmation_number flight = ''ABC123'' \<Longrightarrow>
   get_change_flight_page (srv_fares slash_href) view_url demo_self flight w0 =
     (Inr (flight_page_of [bound_one, bound_two], demo_bounds),
      \<lparr>calls = [HttpGet (BASE_URL @ view_url @ ''ABC123'') (JObj [])
                  (JObj [(''first-name'', JStr ''Jane''), (''last-name'', JStr ''Doe'')]),
                HttpGet (BASE_URL @ BOOKING_URL @ ''v1/mobile-air-booking/page/flights/change/current/ABC123'')
                  (JObj []) demo_query],
       slept_ms = 0, sent = []\<rparr>)"
  by (simp add: get_change_flight_page_def make_request_first_ok srv_fares_def w0_def demo_self_def
        reservation_response_def slash_href_def request_call_def)

lemma ex_change_page_plain:
  "confirmation_number flight = ''ABC123'' \<Longrightarrow>
   get_change_flight_page (srv_fares plain_href) view_url demo_self flight w0 =
     (Inr (flight_page_of [bound_one, bound_two], demo_bounds),
      \<lparr>calls = [HttpGet (BASE_URL @ view_url @ ''ABC123'') (JObj [])
                  (JObj [(''first-name'', JStr ''Jane''), (''last-name'', JStr ''Doe'')]),
                HttpGet (BASE_URL @ BOOKING_URL @ ''page/flights/change/current/ABC123'')
                  (JObj []) demo_query],
       slept_ms = 0, sent = []\<rparr>)"
  by (simp add: get_change_flight_page_def make_request_first_ok srv_fares_def w0_def demo_self_def
        reservation_response_def plain_href_def request_call_def)


section \<open>The search query\<close>

lemma search_terms_loop_nth:
  "search_terms_loop refs idx bounds flight = Inr terms \<Longrightarrow>
   length terms = length bounds \<and>
   (\<forall>i<length bounds. search_term refs (idx + i) (bounds ! i) flight = Inr (terms ! i))"
proof (induction bounds arbitrary: idx terms)
  case Nil
  then show ?case by simp
next
  case (Cons bound bounds)
  from Cons.prems obtain t ts where
    t: "search_term refs idx bound flight = Inr t" and
    ts: "search_terms_loop refs (Suc idx) bounds flight = Inr ts" and
    terms: "terms = t # ts"
    by (auto simp: and_then_eq_Inr)
  from Cons.IH [OF ts] have len: "length ts = length bounds"
    and nth: "\<forall>i<length bounds. search_term refs (Suc idx + i) (bounds ! i) flight = Inr (ts ! i)"
    by simp_all
  have "search_term refs (idx + i) ((bound # bounds) ! i) flight = Inr (terms ! i)"
    if "i < length (bound # bounds)" for i
  proof (cases i)
    case 0
    with t terms show ?thesis by simp
  next
    case (Suc j)
    with that have "j < length bounds" by simp
    with nth have "search_term refs (Suc idx + j) (bounds ! j) flight = Inr (ts ! j)" by blast
    with Suc terms show ?thesis by simp
  qed
  with len terms show ?case by simp
qed

lemma search_term_isChangeBound:
  "search_term refs idx bound flight = Inr entry \<Longrightarrow>
   \<exists>time. subscript bound ''timeDeparts'' = Inr time \<and>
          subscript entry ''isChangeBound'' = Inr (JBool (time = JStr (local_departure_time flight)))"
  by (auto simp: search_term_def and_then_eq_Inr)

lemma get_search_query_zip:
  "get_search_query page flight = Inr query \<Longrightarrow>
   \<exists>refs bounds terms.
     subscripts page [''_links'', ''changeShopping'', ''body''] = Inr refs \<and>
     and_then (subscript page ''boundSelections'') py_iter = Inr bounds \<and>
     search_terms_loop refs 0 bounds flight = Inr terms \<and>
     query = JObj (zip [''outbound'', ''inbound''] terms)"
  unfolding get_search_query_def
  by (auto simp: and_then_eq_Inr simp del: subscripts.simps)

lemma zip_two_keys:
  "map fst (zip [''outbound'', ''inbound''] terms) = take (length terms) [''outbound'', ''inbound'']"
  by (cases terms; cases "tl terms") auto

text \<open>
  Claim C2, run on the code where it fails. The page has the single bound departing at 12:00
  and the flight's local departure time is 1:00: the query has the one key \<^verbatim>\<open>outbound\<close>, and
  its \<^verbatim>\<open>isChangeBound\<close> is false, where the claim has it true for a single bound.
\<close>

theorem get_search_query_one_way_other_time:
  "subscript bound_one ''timeDeparts'' = Inr (JStr ''12:00'') \<and>
   local_departure_time demo_flight = ''1:00'' \<and>
   get_search_query (flight_page_of [bound_one]) demo_flight =
     Inr (JObj [(''outbound'', JObj [(''boundReference'', JStr ''bound_1''), (''date'', JStr ''1/1''),
        (''destination-airport'', JStr ''LAX''), (''origin-airport'', JStr ''MIA''),
        (''isChangeBound'', JBool False)])])"
  by (simp add: get_search_query_def search_term_def flight_page_of_def bound_one_def demo_flight_def)

text \<open>
  Claim C2, as the code has it. When \<^verbatim>\<open>_get_search_query\<close> returns for a page whose
  \<^verbatim>\<open>boundSelections\<close> is a list, the query is a dictionary whose keys are exactly
  \<^verbatim>\<open>outbound\<close> for one bound and \<^verbatim>\<open>outbound\<close>, \<^verbatim>\<open>inbound\<close> in that order for two bounds, and
  the \<^verbatim>\<open>isChangeBound\<close> of each entry, of a single bound's too, is true exactly when the
  \<^verbatim>\<open>timeDeparts\<close> of the bound at the same position equals the flight's local departure time.
\<close>

theorem get_search_query_keys:
  assumes "get_search_query page flight = Inr query"
    and "subscript page ''boundSelections'' = Inr (JList bounds)"
  shows "\<exists>entries. query = JObj entries \<and>
           (length bounds = 1 \<longrightarrow> map fst entries = [''outbound'']) \<and>
           (length bounds = 2 \<longrightarrow> map fst entries = [''outbound'', ''inbound'']) \<and>
           (\<forall>i<length entries. \<exists>time.
              subscript (bounds ! i) ''timeDeparts'' = Inr time \<and>
              subscript (snd (entries ! i)) ''isChangeBound'' =
                Inr (JBool (time = JStr (local_departure_time flight))))"
proof -
  from get_search_query_zip [OF assms(1)] assms(2) obtain refs terms where
    loop: "search_terms_loop refs 0 bounds flight = Inr terms" and
    query: "query = JObj (zip [''outbound'', ''inbound''] terms)"
    by auto
  from search_terms_loop_nth [OF loop] have len: "length terms = length bounds"
    and nth: "\<forall>i<length bounds. search_term refs i (bounds ! i) flight = Inr (terms ! i)"
    by simp_all
  let ?entries = "zip [''outbound'', ''inbound''] terms"
  have keys: "map fst ?entries = take (length bounds) [''outbound'', ''inbound'']"
    using zip_two_keys [of terms] len by simp
  have flags: "\<exists>time. subscript (bounds ! i) ''timeDeparts'' = Inr time \<and>
              subscript (snd (?entries ! i)) ''isChangeBound'' =
                Inr (JBool (time = JStr (local_departure_time flight)))"
    if "i < length ?entries" for i
  proof -
    from that have i: "i < length bounds" and "i < length terms" using len by simp_all
    then have "snd (?entries ! i) = terms ! i" using that by simp
    moreover from nth i have "search_term refs i (bounds ! i) flight = Inr (terms ! i)" by blast
    ultimately show ?thesis using search_term_isChangeBound by metis
  qed
  show ?thesis
    using query keys flags by (intro exI [of _ ?entries]) simp
qed

theorem get_search_query_keys_witness:
  "get_search_query (flight_page_of [bound_two]) demo_flight =
     Inr (JObj [(''outbound'', JObj [(''boundReference'', JStr ''bound_1''), (''date'', JStr ''1/2''),
        (''destination-airport'', JStr ''MIA''), (''origin-airport'', JStr ''LAX''),
        (''isChangeBound'', JBool True)])]) \<and>
   get_search_query (flight_page_of [bound_one, bound_two]) demo_flight =
     Inr (JObj [(''outbound'', outbound_term), (''inbound'', inbound_term)])"
proof -
  have one: "get_search_query (flight_page_of [bound_two]) demo_flight =
     Inr (JObj [(''outbound'', JObj [(''boundReference'', JStr ''bound_1''), (''date'', JStr ''1/2''),
        (''destination-airport'', JStr ''MIA''), (''origin-airport'', JStr ''LAX''),
        (''isChangeBound'', JBool True)])])"
    by (simp add: get_search_query_def search_term_def flight_page_of_def bound_two_def demo_flight_def)
  have two: "get_search_query (flight_page_of [bound_one, bound_two]) demo_flight =
     Inr (JObj [(''outbound'', outbound_term), (''inbound'', inbound_term)])"
    by (simp add: get_search_query_def search_term_def flight_page_of_def bound_one_def bound_two_def
          demo_flight_def outbound_term_def inbound_term_def)
  have sel1: "subscript (flight_page_of [bound_two]) ''boundSelections'' = Inr (JList [bound_two])"
    by (simp add: flight_page_of_def)
  have sel2: "subscript (flight_page_of [bound_one, bound_two]) ''boundSelections'' =
      Inr (JList [bound_one, bound_two])"
    by (simp add: flight_page_of_def)
  show ?thesis
    using get_search_query_keys [OF one sel1] get_search_query_keys [OF two sel2] one two
    by simp
qed

text \<open>
  C10. Every query that \<^verbatim>\<open>_get_search_query\<close> returns has at most two entries and has
  the key \<^verbatim>\<open>outbound\<close> whenever it has \<^verbatim>\<open>inbound\<close>. When the page lists more than two
  bounds, the query consists of the entries of the first two bounds only: the later bounds
  leave no trace in it.
\<close>

theorem get_search_query_at_most_two:
  assumes "get_search_query page flight = Inr query"
  shows "\<exists>entries. query = JObj entries \<and> length entries \<le> 2 \<and>
           (''inbound'' \<in> set (map fst entries) \<longrightarrow> ''outbound'' \<in> set (map fst entries)) \<and>
           (\<forall>bounds refs.
              subscript page ''boundSelections'' = Inr (JList bounds) \<and>
              subscripts page [''_links'', ''changeShopping'', ''body''] = Inr refs \<and>
              2 < length bounds \<longrightarrow>
              (\<exists>first second.
                 search_term refs 0 (bounds ! 0) flight = Inr first \<and>
                 search_term refs 1 (bounds ! 1) flight = Inr second \<and>
                 entries = [(''outbound'', first), (''inbound'', second)]))"
proof -
  from get_search_query_zip [OF assms] obtain refs bounds terms where
    refs: "subscripts page [''_links'', ''changeShopping'', ''body''] = Inr refs" and
    bounds: "and_then (subscript page ''boundSelections'') py_iter = Inr bounds" and
    loop: "search_terms_loop refs 0 bounds flight = Inr terms" and
    query: "query = JObj (zip [''outbound'', ''inbound''] terms)"
    by blast
  from search_terms_loop_nth [OF loop] have len: "length terms = length bounds"
    and nth: "\<forall>i<length bounds. search_term refs i (bounds ! i) flight = Inr (terms ! i)"
    by simp_all
  let ?entries = "zip [''outbound'', ''inbound''] terms"
  have short: "length ?entries \<le> 2" by simp
  have keys: "''inbound'' \<in> set (map fst ?entries) \<longrightarrow> ''outbound'' \<in> set (map fst ?entries)"
    unfolding zip_two_keys by (cases terms; cases "tl terms") auto
  have drops: "\<exists>first second.
                 search_term refs' 0 (bounds' ! 0) flight = Inr first \<and>
                 search_term refs' 1 (bounds' ! 1) flight = Inr second \<and>
                 ?entries = [(''outbound'', first), (''inbound'', second)]"
    if h: "subscript page ''boundSelections'' = Inr (JList bounds') \<and>
        subscripts page [''_links'', ''changeShopping'', ''body''] = Inr refs' \<and>
        2 < length bounds'" for bounds' refs'
  proof -
    from h bounds refs have eq: "bounds' = bounds" "refs' = refs" by simp_all
    with h len have l: "2 < length terms" by simp
    then obtain a b rest where terms: "terms = a # b # rest"
      by (cases terms; cases "tl terms") auto
    from l len have "0 < length bounds" and "1 < length bounds" by linarith+
    with nth have "search_term refs 0 (bounds ! 0) flight = Inr (terms ! 0)"
      and "search_term refs 1 (bounds ! 1) flight = Inr (terms ! 1)"
      by blast+
    with terms eq show ?thesis by simp
  qed
  show ?thesis
    using query short keys drops by (intro exI [of _ ?entries]) blast
qed

theorem get_search_query_at_most_two_witness:
  "get_search_query (flight_page_of [bound_one, bound_two, bound_one]) demo_flight =
     Inr (JObj [(''outbound'', outbound_term), (''inbound'', inbound_term)])"
proof -
  have three: "get_search_query (flight_page_of [bound_one, bound_two, bound_one]) demo_flight =
     Inr (JObj [(''outbound'', outbound_term), (''inbound'', inbound_term)])"
    by (simp add: get_search_query_def search_term_def flight_page_of_def bound_one_def bound_two_def
          demo_flight_def outbound_term_def inbound_term_def)
  show ?thesis
    using get_search_query_at_most_two [OF three] three by simp
qed

section \<open>Fare matching\<close>

lemma get_matching_fare_loop_find:
  "\<forall>fare \<in> set fares. \<exists>pid. subscripts fare [''_meta'', ''fareProductId''] = Inr pid \<Longrightarrow>
   get_matching_fare_loop rp fares fare_type =
     (case find (fare_matches fare_type) fares of
        None \<Rightarrow> Inl (KeyError (JStr (''No fare type found matching '' @ py_str rp fare_type)))
      | Some fare \<Rightarrow> subscript fare ''priceDifference'')"
proof (induction fares)
  case Nil
  show ?case by simp
next
  case (Cons fare fares)
  then obtain pid where pid: "subscripts fare [''_meta'', ''fareProductId''] = Inr pid"
    by auto
  from Cons have ih: "get_matching_fare_loop rp fares fare_type =
     (case find (fare_matches fare_type) fares of
        None \<Rightarrow> Inl (KeyError (JStr (''No fare type found matching '' @ py_str rp fare_type)))
      | Some fare \<Rightarrow> subscript fare ''priceDifference'')"
    by simp
  have m: "fare_matches fare_type fare = py_eq pid fare_type"
    using pid by (simp add: fare_matches_def del: subscripts.simps)
  show ?case
    using pid ih m by (simp del: subscripts.simps)
qed

text \<open>
  C6. For a fare list whose entries all have \<^verbatim>\<open>_meta.fareProductId\<close> and
  \<^verbatim>\<open>priceDifference\<close>: when no entry's product id equals the expected fare type,
  \<^verbatim>\<open>_get_matching_fare\<close> raises \<open>KeyError\<close> with the message "No fare type found matching
  ...", which is not the \<^verbatim>\<open>None\<close> of a missing flight; when an entry matches, it returns
  the \<^verbatim>\<open>priceDifference\<close> of the first such entry and raises nothing.
\<close>

theorem get_matching_fare_lookup:
  assumes "\<forall>fare \<in> set fares. \<exists>pid pd.
             subscripts fare [''_meta'', ''fareProductId''] = Inr pid \<and>
             subscript fare ''priceDifference'' = Inr pd"
  shows "(\<not> list_ex (fare_matches fare_type) fares \<longrightarrow>
            get_matching_fare rp (JList fares) fare_type =
              Inl (KeyError (JStr (''No fare type found matching '' @ py_str rp fare_type))) \<and>
            get_matching_fare rp (JList fares) fare_type \<noteq> Inr JNull) \<and>
         (\<forall>fare. find (fare_matches fare_type) fares = Some fare \<longrightarrow>
            (\<exists>pd. subscript fare ''priceDifference'' = Inr pd \<and>
                  get_matching_fare rp (JList fares) fare_type = Inr pd))"
proof -
  from assms have ids: "\<forall>fare \<in> set fares. \<exists>pid. subscripts fare [''_meta'', ''fareProductId''] = Inr pid"
    by blast
  have eq: "get_matching_fare rp (JList fares) fare_type =
     (case find (fare_matches fare_type) fares of
        None \<Rightarrow> Inl (KeyError (JStr (''No fare type found matching '' @ py_str rp fare_type)))
      | Some fare \<Rightarrow> subscript fare ''priceDifference'')"
    using get_matching_fare_loop_find [OF ids] by (simp add: get_matching_fare_def)
  have none: "\<not> list_ex (fare_matches fare_type) fares \<Longrightarrow> find (fare_matches fare_type) fares = None"
    by (simp add: find_None_iff list_ex_iff)
  have some: "\<exists>pd. subscript fare ''priceDifference'' = Inr pd"
    if "find (fare_matches fare_type) fares = Some fare" for fare
  proof -
    from that have "fare \<in> set fares"
      by (auto simp: find_Some_iff)
    with assms show ?thesis by blast
  qed
  show ?thesis
    using none some by (auto simp: eq)
qed

theorem get_matching_fare_lookup_witness:
  "get_matching_fare no_repr (JList demo_fares) (JStr ''BUS'') =
     Inl (KeyError (JStr ''No fare type found matching BUS'')) \<and>
   get_matching_fare no_repr (JList demo_fares) (JStr ''ANY'') = Inr price_drop"
proof -
  have wf: "\<forall>fare \<in> set demo_fares. \<exists>pid pd.
             subscripts fare [''_meta'', ''fareProductId''] = Inr pid \<and>
             subscript fare ''priceDifference'' = Inr pd"
    by (simp add: demo_fares_def)
  show ?thesis
    using get_matching_fare_lookup [OF wf, of "JStr ''BUS''" no_repr]
          get_matching_fare_lookup [OF wf, of "JStr ''ANY''" no_repr]
    by (simp add: demo_fares_def fare_matches_def)
qed
section \<open>The change-flight page request\<close>

text \<open>
  Claim C8. When the first request returns a reservation whose change link has a string
  \<open>href\<close>, the second request of \<^verbatim>\<open>_get_change_flight_page\<close> goes to \<^verbatim>\<open>BOOKING_URL\<close>
  followed by \<open>href\<close> without its first character when \<^verbatim>\<open>"/v1/"\<close> occurs in \<open>href\<close>
  (the test the code makes to detect the extra separator), and by \<open>href\<close> itself otherwise.
  In the first case \<open>href\<close> is not empty, so exactly one character is removed. The
  request is repeated \<open>n\<close> times, as the transport retries it.
\<close>

theorem get_change_flight_page_href:
  assumes "make_request srv ''GET'' (view @ confirmation_number flight) (headers self)
             (JObj [(''first-name'', JStr (first_name self)), (''last-name'', JStr (last_name self))])
             7 w = (Inr response, w1)"
    and "subscripts response [''viewReservationViewPage'', ''bounds''] = Inr fare_type_bounds"
    and "subscripts response [''viewReservationViewPage'', ''_links'', ''change''] = Inr link"
    and "subscript link ''href'' = Inr (JStr href)"
    and "subscript link ''query'' = Inr query"
  shows "\<exists>n. 1 \<le> n \<and>
           calls (snd (get_change_flight_page srv view self flight w)) =
             calls w1 @ replicate n
               (HttpGet (BASE_URL @ BOOKING_URL @
                          (if str_contains ''/v1/'' href then drop 1 href else href))
                  (headers self) query) \<and>
           (str_contains ''/v1/'' href \<longrightarrow> href = hd href # drop 1 href)"
proof -
  define href' where "href' = (if str_contains ''/v1/'' href then drop 1 href else href)"
  let ?second = "make_request srv ''GET'' (BOOKING_URL @ href') (headers self) query 7 w1"
  obtain r w2 where second: "?second = (r, w2)"
    by (cases ?second)
  have pre:
    "and_then (subscripts response [''viewReservationViewPage'', ''bounds''])
       (\<lambda>fare_type_bounds.
     and_then (subscripts response [''viewReservationViewPage'', ''_links'', ''change''])
       (\<lambda>info.
     and_then (subscript info ''href'') (\<lambda>href.
     and_then (py_in ''/v1/'' href) (\<lambda>extra_slash.
     and_then (if extra_slash then py_slice_from_1 href else Inr href) (\<lambda>href'.
     and_then (str_add BOOKING_URL href') (\<lambda>site.
     and_then (subscript info ''query'') (\<lambda>query.
       Inr (fare_type_bounds, site, query)))))))) =
     Inr (fare_type_bounds, BOOKING_URL @ href', query)"
    unfolding assms(2,3)
    apply (simp only: and_then_def sum.case assms(4,5))
    apply (cases "str_contains ''/v1/'' href")
     apply (simp_all only: py_in.simps sum.case if_True if_False py_slice_from_1.simps
        str_add.simps href'_def)
    done
  have body: "get_change_flight_page srv view self flight w =
      (case make_request srv ''GET'' (BOOKING_URL @ href') (headers self) query 7 w1 of
         (Inl e, w2) \<Rightarrow> (Inl e, w2)
       | (Inr response, w2) \<Rightarrow>
          (and_then (subscript response ''changeFlightPage'') (\<lambda>page.
             Inr (page, fare_type_bounds)), w2))"
    unfolding get_change_flight_page_def Let_def assms(1)
    by (simp only: pre prod.case sum.case)
  have run: "snd (get_change_flight_page srv view self flight w) = w2"
    unfolding body second by (cases r) simp_all
  from make_request_calls [OF _ second] obtain n where
    n: "1 \<le> n" "calls w2 = calls w1 @ replicate n (request_call ''GET'' (BOOKING_URL @ href') (headers self) query)"
    by auto
  have call: "request_call ''GET'' (BOOKING_URL @ href') (headers self) query =
      HttpGet (BASE_URL @ BOOKING_URL @ href') (headers self) query"
    by (simp add: request_call_def)
  have strip: "str_contains ''/v1/'' href \<longrightarrow> href = hd href # drop 1 href"
    by (cases href) simp_all
  have main: "calls (snd (get_change_flight_page srv view self flight w)) =
             calls w1 @ replicate n (HttpGet (BASE_URL @ BOOKING_URL @ href') (headers self) query)"
    unfolding run n(2) call by (rule refl)
  have "1 \<le> n \<and>
           calls (snd (get_change_flight_page srv view self flight w)) =
             calls w1 @ replicate n (HttpGet (BASE_URL @ BOOKING_URL @ href') (headers self) query) \<and>
           (str_contains ''/v1/'' href \<longrightarrow> href = hd href # drop 1 href)"
    by (rule conjI [OF n(1) conjI [OF main strip]])
  then show ?thesis
    unfolding href'_def by (rule exI [where x = n])
qed

theorem get_change_flight_page_href_witness:
  "calls (snd (get_change_flight_page (srv_fares slash_href) view_url demo_self demo_flight w0)) ! 1 =
     HttpGet (BASE_URL @ BOOKING_URL @ ''v1/mobile-air-booking/page/flights/change/current/ABC123'')
       (JObj []) demo_query \<and>
   calls (snd (get_change_flight_page (srv_fares plain_href) view_url demo_self demo_flight w0)) ! 1 =
     HttpGet (BASE_URL @ BOOKING_URL @ ''page/flights/change/current/ABC123'')
       (JObj []) demo_query"
proof -
  let ?names = "JObj [(''first-name'', JStr (first_name demo_self)),
                      (''last-name'', JStr (last_name demo_self))]"
  let ?w1 = "w0\<lparr>calls := calls w0 @ [request_call ''GET'' (view_url @ confirmation_number demo_flight)
                (headers demo_self) ?names]\<rparr>"
  have first: "make_request (srv_fares href) ''GET'' (view_url @ confirmation_number demo_flight)
        (headers demo_self) ?names 7 w0 = (Inr (reservation_response href), ?w1)" for href
    by (simp add: make_request_first_ok srv_fares_def w0_def)
  have page: "subscripts (reservation_response href) [''viewReservationViewPage'', ''bounds''] =
        Inr demo_bounds"
      "subscripts (reservation_response href) [''viewReservationViewPage'', ''_links'', ''change''] =
        Inr (JObj [(''href'', JStr href), (''query'', demo_query)])"
      "subscript (JObj [(''href'', JStr href), (''query'', demo_query)]) ''href'' = Inr (JStr href)"
      "subscript (JObj [(''href'', JStr href), (''query'', demo_query)]) ''query'' = Inr demo_query"
    for href
    by (simp_all add: reservation_response_def and_then_def)
  have len: "length (calls ?w1) = 1"
    by (simp add: w0_def)
  have slash: "str_contains ''/v1/'' slash_href"
      "drop (Suc 0) slash_href = ''v1/mobile-air-booking/page/flights/change/current/ABC123''"
    by (simp_all add: slash_href_def)
  have plain: "\<not> str_contains ''/v1/'' plain_href"
    by (simp add: plain_href_def)
  from get_change_flight_page_href [OF first page, of slash_href]
  have one: "calls (snd (get_change_flight_page (srv_fares slash_href) view_url demo_self demo_flight w0)) ! 1 =
     HttpGet (BASE_URL @ BOOKING_URL @ ''v1/mobile-air-booking/page/flights/change/current/ABC123'')
       (JObj []) demo_query"
    using len by (auto simp: nth_append slash demo_self_def)
  from get_change_flight_page_href [OF first page, of plain_href]
  have two: "calls (snd (get_change_flight_page (srv_fares plain_href) view_url demo_self demo_flight w0)) ! 1 =
     HttpGet (BASE_URL @ BOOKING_URL @ ''page/flights/change/current/ABC123'')
       (JObj []) demo_query"
    using len by (auto simp: nth_append plain demo_self_def plain_href_def)
  from one two show ?thesis by (rule conjI)
qed


section \<open>The transport retries a bounded number of times\<close>

lemma make_request_loop_exhausted:
  "\<forall>j<n. status_code (srv (calls w @ replicate j c) c) \<noteq> 200 \<Longrightarrow>
   c = (if method = ''POST'' then HttpPost url hdrs info else HttpGet url hdrs info) \<Longrightarrow>
   attempts + int n = max_attempts + 1 \<Longrightarrow>
   make_request_loop srv method url hdrs info attempts max_attempts response w =
     (case (if n = 0 then response else Some (srv (calls w @ replicate (n - 1) c) c)) of
        None \<Rightarrow> Inl UnboundLocalError
      | Some r \<Rightarrow> Inl (RequestError (reason r @ '' '' @ str_int (status_code r))),
      w\<lparr>calls := calls w @ replicate n c, slept_ms := slept_ms w + 500 * n\<rparr>)"
proof (induction n arbitrary: attempts response w)
  case 0
  then have "\<not> attempts \<le> max_attempts" by simp
  then show ?case
    by (subst make_request_loop.simps) (simp split: option.splits)
next
  case (Suc n)
  let ?r = "srv (calls w) c"
  let ?w = "w\<lparr>calls := calls w @ [c], slept_ms := slept_ms w + 500\<rparr>"
  from Suc.prems have le: "attempts \<le> max_attempts" by simp
  from Suc.prems(1) have bad: "status_code ?r \<noteq> 200" by force
  have later: "\<forall>j<n. status_code (srv (calls ?w @ replicate j c) c) \<noteq> 200"
  proof (intro allI impI)
    fix j assume "j < n"
    then have "Suc j < Suc n" by simp
    then have "status_code (srv (calls w @ replicate (Suc j) c) c) \<noteq> 200"
      using Suc.prems(1) by blast
    then show "status_code (srv (calls ?w @ replicate j c) c) \<noteq> 200" by simp
  qed
  have step: "make_request_loop srv method url hdrs info attempts max_attempts response w =
      make_request_loop srv method url hdrs info (attempts + 1) max_attempts (Some ?r) ?w"
    using le bad Suc.prems(2) by (subst make_request_loop.simps) (simp add: Let_def)
  have ih: "make_request_loop srv method url hdrs info (attempts + 1) max_attempts (Some ?r) ?w =
     (case (if n = 0 then Some ?r else Some (srv (calls ?w @ replicate (n - 1) c) c)) of
        None \<Rightarrow> Inl UnboundLocalError
      | Some r \<Rightarrow> Inl (RequestError (reason r @ '' '' @ str_int (status_code r))),
      ?w\<lparr>calls := calls ?w @ replicate n c, slept_ms := slept_ms ?w + 500 * n\<rparr>)"
    using Suc.prems(2,3) by (intro Suc.IH later) simp_all
  have last: "(if n = 0 then Some ?r else Some (srv (calls ?w @ replicate (n - 1) c) c)) =
      Some (srv (calls w @ replicate (Suc n - 1) c) c)"
    by (cases n) simp_all
  show ?case
    unfolding step ih last by (simp add: replicate_app_Cons_same)
qed

lemma make_request_loop_success:
  "\<forall>j<k. status_code (srv (calls w @ replicate j c) c) \<noteq> 200 \<Longrightarrow>
   status_code (srv (calls w @ replicate k c) c) = 200 \<Longrightarrow>
   c = (if method = ''POST'' then HttpPost url hdrs info else HttpGet url hdrs info) \<Longrightarrow>
   attempts + int k \<le> max_attempts \<Longrightarrow>
   make_request_loop srv method url hdrs info attempts max_attempts response w =
     (json_body (srv (calls w @ replicate k c) c),
      w\<lparr>calls := calls w @ replicate (Suc k) c, slept_ms := slept_ms w + 500 * k\<rparr>)"
proof (induction k arbitrary: attempts response w)
  case 0
  then show ?case
    by (subst make_request_loop.simps) (simp add: Let_def)
next
  case (Suc k)
  let ?r = "srv (calls w) c"
  let ?w = "w\<lparr>calls := calls w @ [c], slept_ms := slept_ms w + 500\<rparr>"
  from Suc.prems have le: "attempts \<le> max_attempts" by simp
  from Suc.prems(1) have bad: "status_code ?r \<noteq> 200" by force
  have later: "\<forall>j<k. status_code (srv (calls ?w @ replicate j c) c) \<noteq> 200"
  proof (intro allI impI)
    fix j assume "j < k"
    then have "Suc j < Suc k" by simp
    then have "status_code (srv (calls w @ replicate (Suc j) c) c) \<noteq> 200"
      using Suc.prems(1) by blast
    then show "status_code (srv (calls ?w @ replicate j c) c) \<noteq> 200" by simp
  qed
  have ok: "status_code (srv (calls ?w @ replicate k c) c) = 200"
    using Suc.prems(2) by simp
  have step: "make_request_loop srv method url hdrs info attempts max_attempts response w =
      make_request_loop srv method url hdrs info (attempts + 1) max_attempts (Some ?r) ?w"
    using le bad Suc.prems(3) by (subst make_request_loop.simps) (simp add: Let_def)
  have ih: "make_request_loop srv method url hdrs info (attempts + 1) max_attempts (Some ?r) ?w =
     (json_body (srv (calls ?w @ replicate k c) c),
      ?w\<lparr>calls := calls ?w @ replicate (Suc k) c, slept_ms := slept_ms ?w + 500 * k\<rparr>)"
    using Suc.prems(3,4) by (intro Suc.IH later ok) simp_all
  show ?case
    unfolding step ih by (simp add: replicate_app_Cons_same)
qed

lemma str503: "str_int 503 = ''503''"
  by (simp add: str_int_def str_nat.simps)

text \<open>
  C9. When every one of the \<open>max_attempts\<close> attempts is answered with a status other than
  200, \<^verbatim>\<open>make_request\<close> makes exactly \<open>max_attempts\<close> calls, sleeps 500 ms after each,
  and raises \<open>RequestError\<close> with the reason phrase, a space and the status code of the last
  response. When attempt \<open>k\<close> is the first answered with 200, it returns the parsed body of
  that response after \<open>k + 1\<close> calls and \<open>k\<close> sleeps, with no further call.
\<close>

theorem make_request_retries:
  "1 \<le> max_attempts \<longrightarrow>
   ((\<forall>k < nat max_attempts.
        status_code (attempt_response srv (calls w) (request_call method site hdrs info) k) \<noteq> 200) \<longrightarrow>
    make_request srv method site hdrs info max_attempts w =
      (Inl (RequestError
         (reason (attempt_response srv (calls w) (request_call method site hdrs info)
                    (nat max_attempts - 1)) @ '' '' @
          str_int (status_code (attempt_response srv (calls w)
                    (request_call method site hdrs info) (nat max_attempts - 1))))),
       w\<lparr>calls := calls w @ replicate (nat max_attempts) (request_call method site hdrs info),
         slept_ms := slept_ms w + 500 * nat max_attempts\<rparr>)) \<and>
   (\<forall>k < nat max_attempts.
      (\<forall>j<k. status_code (attempt_response srv (calls w) (request_call method site hdrs info) j) \<noteq> 200) \<and>
      status_code (attempt_response srv (calls w) (request_call method site hdrs info) k) = 200 \<longrightarrow>
      make_request srv method site hdrs info max_attempts w =
        (json_body (attempt_response srv (calls w) (request_call method site hdrs info) k),
         w\<lparr>calls := calls w @ replicate (Suc k) (request_call method site hdrs info),
           slept_ms := slept_ms w + 500 * k\<rparr>))"
proof (intro impI conjI allI)
  assume m: "1 \<le> max_attempts"
  assume "\<forall>k < nat max_attempts.
        status_code (attempt_response srv (calls w) (request_call method site hdrs info) k) \<noteq> 200"
  then have "make_request_loop srv method (BASE_URL @ site) hdrs info 1 max_attempts None w =
     (case (if nat max_attempts = 0 then None
            else Some (srv (calls w @ replicate (nat max_attempts - 1)
                   (request_call method site hdrs info)) (request_call method site hdrs info))) of
        None \<Rightarrow> Inl UnboundLocalError
      | Some r \<Rightarrow> Inl (RequestError (reason r @ '' '' @ str_int (status_code r))),
      w\<lparr>calls := calls w @ replicate (nat max_attempts) (request_call method site hdrs info),
        slept_ms := slept_ms w + 500 * nat max_attempts\<rparr>)"
    using m by (intro make_request_loop_exhausted) (simp_all add: attempt_response_def request_call_def)
  with m show "make_request srv method site hdrs info max_attempts w =
      (Inl (RequestError
         (reason (attempt_response srv (calls w) (request_call method site hdrs info)
                    (nat max_attempts - 1)) @ '' '' @
          str_int (status_code (attempt_response srv (calls w)
                    (request_call method site hdrs info) (nat max_attempts - 1))))),
       w\<lparr>calls := calls w @ replicate (nat max_attempts) (request_call method site hdrs info),
         slept_ms := slept_ms w + 500 * nat max_attempts\<rparr>)"
    by (simp add: make_request_def attempt_response_def)
next
  fix k
  assume m: "1 \<le> max_attempts" and k: "k < nat max_attempts"
    and h: "(\<forall>j<k. status_code (attempt_response srv (calls w) (request_call method site hdrs info) j) \<noteq> 200) \<and>
      status_code (attempt_response srv (calls w) (request_call method site hdrs info) k) = 200"
  have "make_request_loop srv method (BASE_URL @ site) hdrs info 1 max_attempts None w =
     (json_body (srv (calls w @ replicate k (request_call method site hdrs info))
                  (request_call method site hdrs info)),
      w\<lparr>calls := calls w @ replicate (Suc k) (request_call method site hdrs info),
        slept_ms := slept_ms w + 500 * k\<rparr>)"
    using h k by (intro make_request_loop_success) (simp_all add: attempt_response_def request_call_def)
  then show "make_request srv method site hdrs info max_attempts w =
        (json_body (attempt_response srv (calls w) (request_call method site hdrs info) k),
         w\<lparr>calls := calls w @ replicate (Suc k) (request_call method site hdrs info),
           slept_ms := slept_ms w + 500 * k\<rparr>)"
    by (simp add: make_request_def attempt_response_def)
qed

theorem make_request_retries_witness:
  "make_request srv_busy ''GET'' ''x'' JNull JNull 2 w0 =
     (Inl (RequestError ''Service Unavailable 503''),
      \<lparr>calls = [HttpGet (BASE_URL @ ''x'') JNull JNull, HttpGet (BASE_URL @ ''x'') JNull JNull],
       slept_ms = 1000, sent = []\<rparr>) \<and>
   make_request srv_second ''POST'' ''x'' JNull JNull 2 w0 =
     (Inr (JStr ''page''),
      \<lparr>calls = [HttpPost (BASE_URL @ ''x'') JNull JNull, HttpPost (BASE_URL @ ''x'') JNull JNull],
       slept_ms = 500, sent = []\<rparr>)"
proof
  have two: "nat 2 = Suc (Suc 0)" by simp
  show "make_request srv_busy ''GET'' ''x'' JNull JNull 2 w0 =
     (Inl (RequestError ''Service Unavailable 503''),
      \<lparr>calls = [HttpGet (BASE_URL @ ''x'') JNull JNull, HttpGet (BASE_URL @ ''x'') JNull JNull],
       slept_ms = 1000, sent = []\<rparr>)"
    using make_request_retries [of 2 srv_busy w0 "''GET''" "''x''" JNull JNull]
    by (simp add: two attempt_response_def request_call_def srv_busy_def w0_def str503 eval_nat_numeral)
  show "make_request srv_second ''POST'' ''x'' JNull JNull 2 w0 =
     (Inr (JStr ''page''),
      \<lparr>calls = [HttpPost (BASE_URL @ ''x'') JNull JNull, HttpPost (BASE_URL @ ''x'') JNull JNull],
       slept_ms = 500, sent = []\<rparr>)"
    using make_request_retries [of 2 srv_second w0 "''POST''" "''x''" JNull JNull]
    by (simp add: two attempt_response_def request_call_def srv_second_def w0_def less_Suc_eq eval_nat_numeral)
qed
section \<open>The fare flow\<close>

subsection \<open>Facts about the functions\<close>

lemma get_search_query_flag:
  assumes "get_search_query page flight = Inr query"
    and "subscripts query [''outbound'', ''isChangeBound''] = Inr flag"
  shows "\<exists>b. flag = JBool b"
proof -
  from get_search_query_zip [OF assms(1)] obtain refs bounds terms where
    loop: "search_terms_loop refs 0 bounds flight = Inr terms" and
    query: "query = JObj (zip [''outbound'', ''inbound''] terms)"
    by blast
  from assms(2) obtain entry rest where terms: "terms = entry # rest"
    unfolding query by (cases terms) (simp_all add: and_then_def)
  from assms(2) have entry: "subscript entry ''isChangeBound'' = Inr flag"
    unfolding query terms by (cases rest) (simp_all add: and_then_eq_Inr)
  from loop obtain bound where "search_term refs 0 bound flight = Inr entry"
    unfolding terms by (cases bounds) (auto simp: and_then_eq_Inr)
  from search_term_isChangeBound [OF this] entry show ?thesis
    by auto
qed

lemma get_flight_price_fst:
  "fst (get_flight_price rp srv view self flight w) =
     and_then (fst (get_matching_flights srv view self flight w)) (\<lambda>(flights, fare_type).
     and_then (py_iter flights) (\<lambda>fs. get_flight_price_loop rp fs fare_type flight))"
  by (simp add: get_flight_price_def split: prod.splits sum.splits)

lemma get_flight_price_snd:
  "snd (get_flight_price rp srv view self flight w) = snd (get_matching_flights srv view self flight w)"
  by (simp add: get_flight_price_def split: prod.splits sum.splits)

lemma check_flight_price_fst:
  "fst (check_flight_price rp srv view self flight w) =
     and_then (fst (get_flight_price rp srv view self flight w)) (\<lambda>flight_price.
     and_then (py_get flight_price ''sign'' (JStr [])) (\<lambda>sign.
     and_then (subscript flight_price ''amount'') (\<lambda>amount.
     and_then (subscript flight_price ''currencyCode'') (\<lambda>currency_code. Inr ()))))"
  by (auto simp: check_flight_price_def and_then_def split: prod.splits sum.splits)

lemma check_flight_price_sent:
  "sent (snd (check_flight_price rp srv view self flight w)) =
     sent (snd (get_flight_price rp srv view self flight w)) @
     (case fst (get_flight_price rp srv view self flight w) of
        Inl e \<Rightarrow> []
      | Inr flight_price \<Rightarrow>
         (case and_then (py_get flight_price ''sign'' (JStr [])) (\<lambda>sign.
               and_then (subscript flight_price ''amount'') (\<lambda>amount.
               and_then (subscript flight_price ''currencyCode'') (\<lambda>currency_code.
                 Inr (sign, py_str rp sign @ py_str rp amount @ '' '' @ py_str rp currency_code))))
          of Inl e \<Rightarrow> []
           | Inr (sign, price_info) \<Rightarrow>
               if sign = JStr ''-'' then [LowerFare flight price_info] else []))"
  by (simp add: check_flight_price_def split: prod.splits sum.splits)

lemma get_change_flight_page_sent:
  "sent (snd (get_change_flight_page srv view self flight w)) = sent w"
  by (auto simp: get_change_flight_page_def Let_def dest!: make_request_sent
        split: prod.splits sum.splits)

lemma get_matching_flights_sent:
  "sent (snd (get_matching_flights srv view self flight w)) = sent w"
  using get_change_flight_page_sent [of srv view self flight w]
  by (auto simp: get_matching_flights_def dest!: make_request_sent
        split: prod.splits sum.splits)

lemma get_flight_price_sent:
  "sent (snd (get_flight_price rp srv view self flight w)) = sent w"
  by (simp add: get_flight_price_snd get_matching_flights_sent)

subsection \<open>The flow on the example server\<close>

lemma ex_search_query:
  "get_search_query (flight_page_of [bound_one, bound_two]) (demo_flight\<lparr>local_departure_time := t\<rparr>) =
     Inr (JObj [(''outbound'', JObj [(''boundReference'', JStr ''bound_1''), (''date'', JStr ''1/1''),
                   (''destination-airport'', JStr ''LAX''), (''origin-airport'', JStr ''MIA''),
                   (''isChangeBound'', JBool (''12:00'' = t))]),
                (''inbound'', JObj [(''boundReference'', JStr ''bound_2''), (''date'', JStr ''1/2''),
                   (''destination-airport'', JStr ''MIA''), (''origin-airport'', JStr ''LAX''),
                   (''isChangeBound'', JBool (''1:00'' = t))])])"
  by (simp add: get_search_query_def flight_page_of_def search_term_def bound_one_def bound_two_def
        and_then_def)

lemma ex_change_page_at:
  "get_change_flight_page (srv_fares slash_href) view_url demo_self
     (demo_flight\<lparr>local_departure_time := t\<rparr>) w0 =
     (Inr (flight_page_of [bound_one, bound_two], demo_bounds),
      \<lparr>calls = [HttpGet (BASE_URL @ view_url @ ''ABC123'') (JObj [])
                  (JObj [(''first-name'', JStr ''Jane''), (''last-name'', JStr ''Doe'')]),
                HttpGet (BASE_URL @ BOOKING_URL @ ''v1/mobile-air-booking/page/flights/change/current/ABC123'')
                  (JObj []) demo_query],
       slept_ms = 0, sent = []\<rparr>)"
  by (rule ex_change_page) (simp add: demo_flight_def)

lemma demo_headers: "headers demo_self = JObj []"
  by (simp add: demo_self_def)

lemma ex_matching_flights:
  "fst (get_matching_flights (srv_fares slash_href) view_url demo_self
          (demo_flight\<lparr>local_departure_time := t\<rparr>) w0) =
     Inr (if t = ''12:00'' then (outbound_cards, JStr ''WGA'') else (inbound_cards, JStr ''ANY''))"
  "sent (snd (get_matching_flights (srv_fares slash_href) view_url demo_self
          (demo_flight\<lparr>local_departure_time := t\<rparr>) w0)) = []"
  apply (simp_all only: get_matching_flights_def ex_change_page_at prod.case sum.case
      ex_search_query and_then_simps)
  apply (simp_all add: flight_page_of_def demo_bounds_def make_request_first_ok srv_fares_def
        shopping_response_def demo_headers)
  done

lemma ex_flight_price:
  "fst (get_flight_price rp (srv_fares slash_href) view_url demo_self
          (demo_flight\<lparr>local_departure_time := ''12:00''\<rparr>) w0) = Inr JNull"
  "fst (get_flight_price rp (srv_fares slash_href) view_url demo_self
          (demo_flight\<lparr>local_departure_time := ''1:00''\<rparr>) w0) = Inr price_drop"
  "fst (get_flight_price rp (srv_fares slash_href) view_url demo_self
          (demo_flight\<lparr>local_departure_time := ''2:00''\<rparr>) w0) = Inr no_change"
  "fst (get_flight_price rp (srv_fares slash_href) view_url demo_self
          (demo_flight\<lparr>local_departure_time := ''3:00''\<rparr>) w0) = Inr price_rise"
  by (simp_all add: get_flight_price_fst ex_matching_flights outbound_cards_def inbound_cards_def
        get_matching_fare_def demo_fares_def)

lemma ex_flight_price_sent:
  "sent (snd (get_flight_price rp (srv_fares slash_href) view_url demo_self
          (demo_flight\<lparr>local_departure_time := t\<rparr>) w0)) = []"
  by (simp add: get_flight_price_snd ex_matching_flights)

lemma demo_flight_time: "demo_flight\<lparr>local_departure_time := ''1:00''\<rparr> = demo_flight"
  by (simp add: demo_flight_def)

subsection \<open>Which page and which fare type\<close>

text \<open>
  Claim C3. Whenever \<^verbatim>\<open>_get_matching_flights\<close> returns, the cards it returns are those of
  the shopping response's \<^verbatim>\<open>outboundPage\<close> and the fare type is read from the reservation's
  bound 0 when the \<^verbatim>\<open>isChangeBound\<close> of the query's \<^verbatim>\<open>outbound\<close> entry is true; otherwise the
  cards are those of \<^verbatim>\<open>inboundPage\<close> and the fare type is read from bound 1. The response is
  the one the POST of that query returned.
\<close>

theorem get_matching_flights_bound_page:
  assumes "get_change_flight_page srv view self flight w = (Inr (page, fare_type_bounds), w1)"
    and "get_search_query page flight = Inr query"
    and "subscripts query [''outbound'', ''isChangeBound''] = Inr flag"
    and "get_matching_flights srv view self flight w = (Inr (cards, fare_type), w2)"
  shows "\<exists>site response bound.
      make_request srv ''POST'' site (headers self) query 7 w1 = (Inr response, w2) \<and>
      subscripts response [''changeShoppingPage'', ''flights'',
         (if flag = JBool True then ''outboundPage'' else ''inboundPage''), ''cards''] = Inr cards \<and>
      subscript_idx fare_type_bounds (if flag = JBool True then 0 else 1) = Inr bound \<and>
      subscripts bound [''fareProductDetails'', ''fareProductId''] = Inr fare_type"
proof -
  from get_search_query_flag [OF assms(2,3)] obtain b where flag: "flag = JBool b"
    by blast
  from assms(4) show ?thesis
    unfolding get_matching_flights_def assms(1)
    by (auto simp: assms(2) assms(3) flag and_then_eq_Inr Let_def
          split: sum.splits prod.splits if_splits simp del: subscripts.simps)
qed

theorem get_matching_flights_bound_page_witness:
  "fst (get_matching_flights (srv_fares slash_href) view_url demo_self demo_flight w0) =
     Inr (inbound_cards, JStr ''ANY'') \<and>
   (\<exists>response bound.
      subscripts response [''changeShoppingPage'', ''flights'', ''inboundPage'', ''cards''] =
        Inr inbound_cards \<and>
      subscript_idx demo_bounds 1 = Inr bound \<and>
      subscripts bound [''fareProductDetails'', ''fareProductId''] = Inr (JStr ''ANY'')) \<and>
   fst (get_matching_flights (srv_fares slash_href) view_url demo_self noon_flight w0) =
     Inr (outbound_cards, JStr ''WGA'') \<and>
   (\<exists>response bound.
      subscripts response [''changeShoppingPage'', ''flights'', ''outboundPage'', ''cards''] =
        Inr outbound_cards \<and>
      subscript_idx demo_bounds 0 = Inr bound \<and>
      subscripts bound [''fareProductDetails'', ''fareProductId''] = Inr (JStr ''WGA''))"
proof -
  let ?run = "\<lambda>flight. get_matching_flights (srv_fares slash_href) view_url demo_self flight w0"
  note page = ex_change_page_at
  note query = ex_search_query
  have flag: "subscripts (JObj [(''outbound'', JObj [(''boundReference'', JStr ''bound_1''), (''date'', JStr ''1/1''),
                   (''destination-airport'', JStr ''LAX''), (''origin-airport'', JStr ''MIA''),
                   (''isChangeBound'', JBool (''12:00'' = t))]),
                (''inbound'', JObj [(''boundReference'', JStr ''bound_2''), (''date'', JStr ''1/2''),
                   (''destination-airport'', JStr ''MIA''), (''origin-airport'', JStr ''LAX''),
                   (''isChangeBound'', JBool (''1:00'' = t))])]) [''outbound'', ''isChangeBound''] =
              Inr (JBool (''12:00'' = t))" for t
    by simp
  have inb: "?run (demo_flight\<lparr>local_departure_time := ''1:00''\<rparr>) =
      (Inr (inbound_cards, JStr ''ANY''), snd (?run (demo_flight\<lparr>local_departure_time := ''1:00''\<rparr>)))"
    using ex_matching_flights(1) [of "''1:00''"] by (simp add: prod_eq_iff)
  have outb: "?run (demo_flight\<lparr>local_departure_time := ''12:00''\<rparr>) =
      (Inr (outbound_cards, JStr ''WGA''), snd (?run (demo_flight\<lparr>local_departure_time := ''12:00''\<rparr>)))"
    using ex_matching_flights(1) [of "''12:00''"] by (simp add: prod_eq_iff)
  from get_matching_flights_bound_page [OF page query flag inb]
  have one: "\<exists>response bound.
      subscripts response [''changeShoppingPage'', ''flights'', ''inboundPage'', ''cards''] =
        Inr inbound_cards \<and>
      subscript_idx demo_bounds 1 = Inr bound \<and>
      subscripts bound [''fareProductDetails'', ''fareProductId''] = Inr (JStr ''ANY'')"
    by (simp del: subscripts.simps subscript_idx.simps) blast
  from get_matching_flights_bound_page [OF page query flag outb]
  have two: "\<exists>response bound.
      subscripts response [''changeShoppingPage'', ''flights'', ''outboundPage'', ''cards''] =
        Inr outbound_cards \<and>
      subscript_idx demo_bounds 0 = Inr bound \<and>
      subscripts bound [''fareProductDetails'', ''fareProductId''] = Inr (JStr ''WGA'')"
    by (simp del: subscripts.simps subscript_idx.simps) blast
  have r1: "fst (?run demo_flight) = Inr (inbound_cards, JStr ''ANY'')"
    using ex_matching_flights(1) [of "''1:00''"] by (simp add: demo_flight_time)
  have r2: "fst (?run noon_flight) = Inr (outbound_cards, JStr ''WGA'')"
    using ex_matching_flights(1) [of "''12:00''"] by (simp add: noon_flight_def)
  from r1 one r2 two show ?thesis
    by (intro conjI)
qed

subsection \<open>The notification of a lower fare\<close>

text \<open>
  Claim C1. For a price that is a dictionary with an \<^verbatim>\<open>amount\<close> and a \<^verbatim>\<open>currencyCode\<close>: when
  its \<^verbatim>\<open>sign\<close> is \<^verbatim>\<open>"-"\<close>, \<^verbatim>\<open>check_flight_price\<close> returns having added exactly one
  notification to those sent before the call, a lower fare for the flight with the text
  sign, amount, a space, currency code; when the \<^verbatim>\<open>sign\<close> is \<^verbatim>\<open>"+"\<close> or there is none, it
  returns and the notifications sent are those sent before the call.
\<close>

theorem check_flight_price_notifies:
  assumes "get_flight_price rp srv view self flight w = (Inr (JObj price), w1)"
    and "map_of price ''amount'' = Some amount"
    and "map_of price ''currencyCode'' = Some currency"
  shows "(map_of price ''sign'' = Some (JStr ''-'') \<longrightarrow>
            check_flight_price rp srv view self flight w =
              (Inr (), w1\<lparr>sent := sent w @
                 [LowerFare flight (''-'' @ py_str rp amount @ '' '' @ py_str rp currency)]\<rparr>)) \<and>
         (map_of price ''sign'' = Some (JStr ''+'') \<or> map_of price ''sign'' = None \<longrightarrow>
            check_flight_price rp srv view self flight w = (Inr (), w1) \<and> sent w1 = sent w)"
proof -
  have kept: "sent w1 = sent w"
    using get_flight_price_sent [of rp srv view self flight w] assms(1) by simp
  show ?thesis
    unfolding check_flight_price_def assms(1)
    by (auto simp: assms(2,3) kept)
qed

theorem check_flight_price_notifies_witness:
  "sent (snd (check_flight_price no_repr (srv_fares slash_href) view_url demo_self demo_flight w0)) =
     [LowerFare demo_flight ''-10 USD''] \<and>
   sent (snd (check_flight_price no_repr (srv_fares slash_href) view_url demo_self three_flight w0)) = [] \<and>
   sent (snd (check_flight_price no_repr (srv_fares slash_href) view_url demo_self two_flight w0)) = []"
proof -
  let ?price = "\<lambda>flight. get_flight_price no_repr (srv_fares slash_href) view_url demo_self flight w0"
  have drop: "?price demo_flight =
      (Inr (JObj [(''sign'', JStr ''-''), (''amount'', JStr ''10''), (''currencyCode'', JStr ''USD'')]),
       snd (?price demo_flight))"
    using ex_flight_price(2) [of no_repr]
    by (simp add: prod_eq_iff demo_flight_time price_drop_def)
  have rise: "?price three_flight =
      (Inr (JObj [(''sign'', JStr ''+''), (''amount'', JStr ''25''), (''currencyCode'', JStr ''USD'')]),
       snd (?price three_flight))"
    using ex_flight_price(4) [of no_repr]
    by (simp add: prod_eq_iff three_flight_def price_rise_def)
  have same: "?price two_flight =
      (Inr (JObj [(''amount'', JStr ''0''), (''currencyCode'', JStr ''USD'')]),
       snd (?price two_flight))"
    using ex_flight_price(3) [of no_repr]
    by (simp add: prod_eq_iff two_flight_def no_change_def)
  have one: "sent (snd (check_flight_price no_repr (srv_fares slash_href) view_url demo_self demo_flight w0)) =
     [LowerFare demo_flight ''-10 USD'']"
    using check_flight_price_notifies [OF drop, of "JStr ''10''" "JStr ''USD''"]
    by (simp add: w0_def)
  have two: "sent (snd (check_flight_price no_repr (srv_fares slash_href) view_url demo_self three_flight w0)) = []"
    using check_flight_price_notifies [OF rise, of "JStr ''25''" "JStr ''USD''"]
    by (simp add: w0_def)
  have three: "sent (snd (check_flight_price no_repr (srv_fares slash_href) view_url demo_self two_flight w0)) = []"
    using check_flight_price_notifies [OF same, of "JStr ''0''" "JStr ''USD''"]
    by (simp add: w0_def)
  from one two three show ?thesis
    by (intro conjI)
qed

subsection \<open>No card at the flight's departure time\<close>

text \<open>
  Claim C4, run on the code. The reservation's outbound bound departs at 12:00 and the
  outbound page lists cards at 10:30 and 11:30 only. \<^verbatim>\<open>_get_flight_price\<close> finds no card and
  returns \<^verbatim>\<open>None\<close>; \<^verbatim>\<open>check_flight_price\<close> then calls \<^verbatim>\<open>get\<close> on it, which raises
  \<open>AttributeError\<close>. Nothing is sent.
\<close>

theorem check_flight_price_no_matching_card:
  "fst (get_matching_flights (srv_fares slash_href) view_url demo_self noon_flight w0) =
     Inr (outbound_cards, JStr ''WGA'') \<and>
   fst (get_flight_price no_repr (srv_fares slash_href) view_url demo_self noon_flight w0) = Inr JNull \<and>
   fst (check_flight_price no_repr (srv_fares slash_href) view_url demo_self noon_flight w0) =
     Inl AttributeError \<and>
   sent (snd (check_flight_price no_repr (srv_fares slash_href) view_url demo_self noon_flight w0)) = []"
  by (simp add: noon_flight_def check_flight_price_fst check_flight_price_sent ex_flight_price
        ex_flight_price_sent ex_matching_flights)

section \<open>The availability flow\<close>

subsection \<open>Facts about the functions\<close>

lemma search_for_new_booking_sent:
  "sent (snd (search_for_new_booking_on_same_flight srv airports self flight w)) = sent w"
  by (auto simp: search_for_new_booking_on_same_flight_def dest!: make_request_sent
        split: prod.splits sum.splits)

lemma subscript_error:
  "subscript v k = Inl e \<Longrightarrow> e = TypeError \<or> e = KeyError (JStr k)"
  by (cases v) (auto split: option.splits)

lemma find_matching_flight_loop_no_match:
  "\<forall>available_flight \<in> set cards.
      subscript available_flight ''departureTime'' \<noteq> Inr (JStr (local_departure_time flight)) \<Longrightarrow>
   find_matching_flight_loop flight cards = Inr JNull \<or>
   find_matching_flight_loop flight cards = Inl TypeError \<or>
   find_matching_flight_loop flight cards = Inl (KeyError (JStr ''departureTime''))"
proof (induction cards)
  case Nil
  then show ?case by simp
next
  case (Cons available_flight cards)
  show ?case
  proof (cases "subscript available_flight ''departureTime''")
    case (Inl e)
    from subscript_error [OF Inl] Inl show ?thesis
      by auto
  next
    case (Inr departure)
    with Cons.prems have "departure \<noteq> JStr (local_departure_time flight)"
      by simp
    with Inr Cons show ?thesis
      by simp
  qed
qed

lemma check_passenger_availability_fst:
  "fst (check_passenger_availability srv airports self flight w) =
     and_then (fst (search_for_new_booking_on_same_flight srv airports self flight w))
       (\<lambda>flights_available.
     and_then (find_matching_flight flight flights_available) (\<lambda>matching_flight.
     and_then (subscript matching_flight ''startingFromPrice'') (\<lambda>price. Inr ())))"
  by (auto simp: check_passenger_availability_def and_then_def split: prod.splits sum.splits)

lemma check_passenger_availability_sent:
  "sent (snd (check_passenger_availability srv airports self flight w)) =
     sent w @
     (case and_then (fst (search_for_new_booking_on_same_flight srv airports self flight w))
             (\<lambda>flights_available.
           and_then (find_matching_flight flight flights_available) (\<lambda>matching_flight.
             subscript matching_flight ''startingFromPrice''))
      of Inl e \<Rightarrow> []
       | Inr price \<Rightarrow> if price = JNull then [FlightUnavailable flight] else [])"
  using search_for_new_booking_sent [of srv airports self flight w]
  by (auto simp: check_passenger_availability_def and_then_def split: prod.splits sum.splits)

subsection \<open>The flow on the example server\<close>

lemma w0_sent: "sent w0 = []"
  by (simp add: w0_def)

lemma ex_seats:
  "fst (search_for_new_booking_on_same_flight srv_seats demo_airports demo_self
          (demo_flight\<lparr>local_departure_time := t\<rparr>) w0) = Inr (JList seat_cards)"
  by (simp add: search_for_new_booking_on_same_flight_def get_airport_code_def demo_airports_def
        demo_flight_def make_request_first_ok srv_seats_def)

lemma ex_seats_run:
  "search_for_new_booking_on_same_flight srv_seats demo_airports demo_self
          (demo_flight\<lparr>local_departure_time := t\<rparr>) w0 =
     (Inr (JList seat_cards),
      snd (search_for_new_booking_on_same_flight srv_seats demo_airports demo_self
          (demo_flight\<lparr>local_departure_time := t\<rparr>) w0))"
  using ex_seats [of t] by (simp add: prod_eq_iff)

lemma ex_bare_run:
  "search_for_new_booking_on_same_flight srv_bare demo_airports demo_self
          (demo_flight\<lparr>local_departure_time := t\<rparr>) w0 =
     (Inr (JList [JObj []]),
      snd (search_for_new_booking_on_same_flight srv_bare demo_airports demo_self
          (demo_flight\<lparr>local_departure_time := t\<rparr>) w0))"
  by (simp add: prod_eq_iff search_for_new_booking_on_same_flight_def get_airport_code_def
        demo_airports_def demo_flight_def make_request_first_ok srv_bare_def)

subsection \<open>The matched card's price\<close>

text \<open>
  Claim C5, run on the code where it fails. The card matched for the 2:00 flight has no
  \<^verbatim>\<open>startingFromPrice\<close>: \<^verbatim>\<open>matching_flight["startingFromPrice"]\<close> raises \<open>KeyError\<close> and no
  notification is sent, where the claim has the notifier called for an absent field.
\<close>

theorem check_passenger_availability_price_absent:
  "find_matching_flight two_flight (JList seat_cards) = Inr (JObj [(''departureTime'', JStr ''2:00'')]) \<and>
   fst (check_passenger_availability srv_seats demo_airports demo_self two_flight w0) =
     Inl (KeyError (JStr ''startingFromPrice'')) \<and>
   sent (snd (check_passenger_availability srv_seats demo_airports demo_self two_flight w0)) = []"
  by (simp add: check_passenger_availability_fst check_passenger_availability_sent two_flight_def
        ex_seats find_matching_flight_def seat_cards_def w0_sent)

text \<open>
  Claim C5, as the code has it. For a matched card: when its \<^verbatim>\<open>startingFromPrice\<close> is present
  and \<^verbatim>\<open>None\<close>, \<^verbatim>\<open>check_passenger_availability\<close> returns having added exactly one
  flight-unavailable notification to those sent before the call; when it is present and not
  \<^verbatim>\<open>None\<close>, it returns and nothing is added; when it is absent, a \<open>KeyError\<close> for that key is
  raised and nothing is added.
\<close>

theorem check_passenger_availability_notifies:
  assumes "search_for_new_booking_on_same_flight srv airports self flight w = (Inr cards, w1)"
    and "find_matching_flight flight cards = Inr (JObj matched)"
  shows "(map_of matched ''startingFromPrice'' = Some JNull \<longrightarrow>
            check_passenger_availability srv airports self flight w =
              (Inr (), w1\<lparr>sent := sent w @ [FlightUnavailable flight]\<rparr>)) \<and>
         (\<forall>price. map_of matched ''startingFromPrice'' = Some price \<and> price \<noteq> JNull \<longrightarrow>
            check_passenger_availability srv airports self flight w = (Inr (), w1) \<and>
            sent w1 = sent w) \<and>
         (map_of matched ''startingFromPrice'' = None \<longrightarrow>
            check_passenger_availability srv airports self flight w =
              (Inl (KeyError (JStr ''startingFromPrice'')), w1) \<and>
            sent w1 = sent w)"
proof -
  have kept: "sent w1 = sent w"
    using search_for_new_booking_sent [of srv airports self flight w] assms(1) by simp
  show ?thesis
    unfolding check_passenger_availability_def assms(1)
    by (auto simp: assms(2) kept)
qed

theorem check_passenger_availability_notifies_witness:
  "sent (snd (check_passenger_availability srv_seats demo_airports demo_self demo_flight w0)) =
     [FlightUnavailable demo_flight] \<and>
   sent (snd (check_passenger_availability srv_seats demo_airports demo_self morning_flight w0)) = [] \<and>
   fst (check_passenger_availability srv_seats demo_airports demo_self two_flight w0) =
     Inl (KeyError (JStr ''startingFromPrice''))"
proof -
  have null: "find_matching_flight (demo_flight\<lparr>local_departure_time := ''1:00''\<rparr>) (JList seat_cards) =
      Inr (JObj [(''departureTime'', JStr ''1:00''), (''startingFromPrice'', JNull)])"
    by (simp add: find_matching_flight_def seat_cards_def)
  have priced: "find_matching_flight (demo_flight\<lparr>local_departure_time := ''10:30''\<rparr>) (JList seat_cards) =
      Inr (JObj [(''departureTime'', JStr ''10:30''),
            (''startingFromPrice'', JObj [(''amount'', JStr ''120''), (''currencyCode'', JStr ''USD'')])])"
    by (simp add: find_matching_flight_def seat_cards_def)
  have absent: "find_matching_flight (demo_flight\<lparr>local_departure_time := ''2:00''\<rparr>) (JList seat_cards) =
      Inr (JObj [(''departureTime'', JStr ''2:00'')])"
    by (simp add: find_matching_flight_def seat_cards_def)
  have one: "sent (snd (check_passenger_availability srv_seats demo_airports demo_self demo_flight w0)) =
     [FlightUnavailable demo_flight]"
    using check_passenger_availability_notifies [OF ex_seats_run null]
    by (simp add: demo_flight_time w0_sent)
  have two: "sent (snd (check_passenger_availability srv_seats demo_airports demo_self morning_flight w0)) = []"
    using check_passenger_availability_notifies [OF ex_seats_run priced]
    by (simp add: morning_flight_def w0_sent)
  have three: "fst (check_passenger_availability srv_seats demo_airports demo_self two_flight w0) =
     Inl (KeyError (JStr ''startingFromPrice''))"
    using check_passenger_availability_notifies [OF ex_seats_run absent]
    by (simp add: two_flight_def)
  from one two three show ?thesis
    by (intro conjI)
qed

subsection \<open>No card at the flight's departure time\<close>

text \<open>
  Claim C7. When the search returns a list of cards and no card's \<^verbatim>\<open>departureTime\<close> equals the
  flight's local departure time, \<^verbatim>\<open>check_passenger_availability\<close> does not return: it raises
  an error and sends no notification. The error is the \<open>TypeError\<close> of subscripting the
  \<^verbatim>\<open>None\<close> that \<^verbatim>\<open>_find_matching_flight\<close> returns (or of a card that is not a dictionary), or
  the \<open>KeyError\<close> of a card without a \<^verbatim>\<open>departureTime\<close>.
\<close>

theorem check_passenger_availability_no_match_raises:
  assumes "search_for_new_booking_on_same_flight srv airports self flight w = (Inr (JList cards), w1)"
    and "\<forall>available_flight \<in> set cards.
           subscript available_flight ''departureTime'' \<noteq> Inr (JStr (local_departure_time flight))"
  shows "\<exists>e. check_passenger_availability srv airports self flight w = (Inl e, w1) \<and>
             (e = TypeError \<or> e = KeyError (JStr ''departureTime'')) \<and>
             sent w1 = sent w"
proof -
  have kept: "sent w1 = sent w"
    using search_for_new_booking_sent [of srv airports self flight w] assms(1) by simp
  have body: "check_passenger_availability srv airports self flight w =
      (case and_then (find_matching_flight_loop flight cards) (\<lambda>matching_flight.
              subscript matching_flight ''startingFromPrice'')
       of Inl e \<Rightarrow> (Inl e, w1)
        | Inr starting_from_price \<Rightarrow>
           if starting_from_price = JNull then
             (Inr (), w1\<lparr>sent := sent w1 @ [FlightUnavailable flight]\<rparr>)
           else (Inr (), w1))"
    unfolding check_passenger_availability_def assms(1)
    by (simp add: find_matching_flight_def)
  from find_matching_flight_loop_no_match [OF assms(2)]
  consider "find_matching_flight_loop flight cards = Inr JNull"
    | "find_matching_flight_loop flight cards = Inl TypeError"
    | "find_matching_flight_loop flight cards = Inl (KeyError (JStr ''departureTime''))"
    by blast
  then show ?thesis
  proof cases
    case 1
    then have "check_passenger_availability srv airports self flight w = (Inl TypeError, w1)"
      unfolding body by simp
    with kept show ?thesis by (intro exI [where x = TypeError]) simp
  next
    case 2
    then have "check_passenger_availability srv airports self flight w = (Inl TypeError, w1)"
      unfolding body by simp
    with kept show ?thesis by (intro exI [where x = TypeError]) simp
  next
    case 3
    then have "check_passenger_availability srv airports self flight w =
        (Inl (KeyError (JStr ''departureTime'')), w1)"
      unfolding body by simp
    with kept show ?thesis by (intro exI [where x = "KeyError (JStr ''departureTime'')"]) simp
  qed
qed

theorem check_passenger_availability_no_match_raises_witness:
  "fst (check_passenger_availability srv_seats demo_airports demo_self three_flight w0) = Inl TypeError \<and>
   sent (snd (check_passenger_availability srv_seats demo_airports demo_self three_flight w0)) = [] \<and>
   fst (check_passenger_availability srv_bare demo_airports demo_self three_flight w0) =
     Inl (KeyError (JStr ''departureTime'')) \<and>
   sent (snd (check_passenger_availability srv_bare demo_airports demo_self three_flight w0)) = []"
proof -
  have times: "\<forall>available_flight \<in> set seat_cards.
      subscript available_flight ''departureTime'' \<noteq>
        Inr (JStr (local_departure_time (demo_flight\<lparr>local_departure_time := ''3:00''\<rparr>)))"
    by (simp add: seat_cards_def)
  have bare: "\<forall>available_flight \<in> set [JObj []].
      subscript available_flight ''departureTime'' \<noteq>
        Inr (JStr (local_departure_time (demo_flight\<lparr>local_departure_time := ''3:00''\<rparr>)))"
    by simp
  have seats_fst: "fst (check_passenger_availability srv_seats demo_airports demo_self
        (demo_flight\<lparr>local_departure_time := ''3:00''\<rparr>) w0) = Inl TypeError"
    by (simp add: check_passenger_availability_fst ex_seats find_matching_flight_def seat_cards_def)
  have bare_fst: "fst (check_passenger_availability srv_bare demo_airports demo_self
        (demo_flight\<lparr>local_departure_time := ''3:00''\<rparr>) w0) = Inl (KeyError (JStr ''departureTime''))"
    using ex_bare_run [of "''3:00''"]
    by (simp add: check_passenger_availability_fst prod_eq_iff find_matching_flight_def)
  from check_passenger_availability_no_match_raises [OF ex_seats_run times]
  have one: "sent (snd (check_passenger_availability srv_seats demo_airports demo_self
        (demo_flight\<lparr>local_departure_time := ''3:00''\<rparr>) w0)) = []"
    by (auto simp: w0_sent)
  from check_passenger_availability_no_match_raises [OF ex_bare_run bare]
  have two: "sent (snd (check_passenger_availability srv_bare demo_airports demo_self
        (demo_flight\<lparr>local_departure_time := ''3:00''\<rparr>) w0)) = []"
    by (auto simp: w0_sent)
  from seats_fst one bare_fst two show ?thesis
    unfolding three_flight_def by (intro conjI)
qed


end
